theory Spec2Isabelle
  imports Main
begin

section \<open>Syntax trees\<close>

text \<open>
  The fix works on Go syntax trees (package go/ast) that the type checker has annotated.
  The type checker's table \<^verbatim>\<open>Types\<close> is keyed by node identity, and the fix mutates
  nodes in place, so a node keeps its entry while it is rewritten and a node the fix
  creates has none. The embedding therefore stores the table's entry in the node: the
  first field of every expression is \<^verbatim>\<open>Types[node].Type\<close>, \<open>None\<close> where the table has
  no entry (the nil type). Source positions are not modelled.
\<close>

text \<open>The literal kinds of go/token that a \<^verbatim>\<open>BasicLit\<close> can have (\<open>INT_tok\<close> is \<^verbatim>\<open>token.INT\<close>).\<close>

datatype token = INT_tok | FLOAT | IMAG | CHAR | STRING

text \<open>
  A static type, as far as the fix looks at it: the result of \<^verbatim>\<open>t.String()\<close> and the
  result of \<^verbatim>\<open>types.Implements(t, errorInterface)\<close>.
\<close>

record gotype =
  tyString :: string
  tyImplementsError :: bool

text \<open>
  \<open>Ident t name obj\<close>: \<open>obj\<close> is \<^verbatim>\<open>id.Obj != nil\<close>.
  \<open>SelectorExpr t x sel\<close>: \<open>sel\<close> is \<^verbatim>\<open>Sel.Name\<close>.
  \<open>OtherExpr t kind operands\<close> stands for every other expression form, with its
  operand expressions.
\<close>

datatype expr =
    Ident "gotype option" string bool
  | BasicLit "gotype option" token string
  | SelectorExpr "gotype option" expr string
  | CallExpr "gotype option" expr "expr list"
  | OtherExpr "gotype option" string "expr list"

text \<open>
  \<open>IfStmt init cond body else\<close> has the fields \<^verbatim>\<open>Init\<close>, \<^verbatim>\<open>Cond\<close>, \<^verbatim>\<open>Body\<close> and \<^verbatim>\<open>Else\<close>.
  \<open>OtherStmt kind operands\<close> stands for a statement of another form, with its operand
  expressions. The embedding covers the statements that hold other statements through
  these forms: the bodies of \<^verbatim>\<open>for\<close>, \<^verbatim>\<open>range\<close>, \<^verbatim>\<open>switch\<close> and \<^verbatim>\<open>select\<close> statements and of
  function literals, and the signatures of function declarations, are not represented.
\<close>

datatype stmt =
    ExprStmt expr
  | BlockStmt "stmt list"
  | LabeledStmt string stmt
  | IfStmt "stmt option" expr stmt "stmt option"
  | OtherStmt string "expr list"

fun typeOf :: "expr \<Rightarrow> gotype option" where
  "typeOf (Ident t _ _) = t"
| "typeOf (BasicLit t _ _) = t"
| "typeOf (SelectorExpr t _ _) = t"
| "typeOf (CallExpr t _ _) = t"
| "typeOf (OtherExpr t _ _) = t"

section \<open>Panics and the standard error stream\<close>

text \<open>
  A Go panic aborts the run (nothing in the program recovers). A computation of the fix
  yields what it wrote to the standard error stream and either the panic or its result.
\<close>

datatype panic = Panic string | NilDereference

type_synonym 'a res = "string list \<times> (panic + 'a)"

definition ret :: "'a \<Rightarrow> 'a res" where
  "ret x = ([], Inr x)"

definition throw :: "panic \<Rightarrow> 'a res" where
  "throw p = ([], Inl p)"

definition andThen :: "'a res \<Rightarrow> ('a \<Rightarrow> 'b res) \<Rightarrow> 'b res" where
  "andThen m f =
     (case m of
        (out, Inl p) \<Rightarrow> (out, Inl p)
      | (out, Inr x) \<Rightarrow> (case f x of (out', r) \<Rightarrow> (out @ out', r)))"

section \<open>The logr fix: argument restructuring\<close>

text \<open>\<^verbatim>\<open>newIdent\<close> and \<^verbatim>\<open>ast.NewIdent\<close>: a fresh identifier, without object and without type.\<close>

definition newIdent :: "string \<Rightarrow> expr" where
  "newIdent name = Ident None name False"

text \<open>\<^verbatim>\<open>getFormatString\<close> (the same text in both variants of the fix).\<close>

fun getFormatString :: "expr list \<Rightarrow> panic + expr" where
  "getFormatString [] = Inl (Panic ''No call arguments found'')"
| "getFormatString (BasicLit t kind v # _) =
     (if kind \<noteq> STRING then Inl (Panic ''First call argument is not a string'')
      else Inr (BasicLit t kind v))"
| "getFormatString (_ # _) = Inl (Panic ''First call argument is not a literal'')"

text \<open>A text between double quotes, as in \<^verbatim>\<open>`"` + ident.Name + `"`\<close>.\<close>

definition quote :: "string \<Rightarrow> string" where
  "quote s = [CHR 0x22] @ s @ [CHR 0x22]"

text \<open>The key that the key/value loop gives an argument.\<close>

fun keyOf :: "expr \<Rightarrow> string" where
  "keyOf (Ident _ name _) = quote name"
| "keyOf _ = quote ''FIXME__unknown_key''"

text \<open>
  The loop \<^verbatim>\<open>for i, arg := range callexpr.Args\<close> that skips index 0 and appends a key
  literal and the argument for every other index.
\<close>

fun genKeyValues :: "nat \<Rightarrow> expr list \<Rightarrow> expr list \<Rightarrow> expr list" where
  "genKeyValues i [] newArgs = newArgs"
| "genKeyValues i (arg # rest) newArgs =
     (if i = 0 then genKeyValues (Suc i) rest newArgs
      else genKeyValues (Suc i) rest (newArgs @ [BasicLit None STRING (keyOf arg), arg]))"

text \<open>\<^verbatim>\<open>fixInfo\<close>: the new selector name and the new argument list.\<close>

definition fixInfo :: "expr list \<Rightarrow> (string \<times> expr list) res" where
  "fixInfo args =
     (case getFormatString args of
        Inl p \<Rightarrow> throw p
      | Inr lit \<Rightarrow> ret (''Info'', genKeyValues 0 args [lit]))"

text \<open>
  The first loop of \<^verbatim>\<open>logrFix.fixError\<close>: the indices of the arguments whose type
  implements the error interface. \<^verbatim>\<open>t.String()\<close> is evaluated for the log call of every
  argument, which is a nil dereference when the argument has no type.
\<close>

fun collectErrorTypes :: "nat \<Rightarrow> expr list \<Rightarrow> nat list \<Rightarrow> panic + nat list" where
  "collectErrorTypes i [] isErrorType = Inr isErrorType"
| "collectErrorTypes i (arg # rest) isErrorType =
     (case typeOf arg of
        None \<Rightarrow> Inl NilDereference
      | Some t \<Rightarrow>
          collectErrorTypes (Suc i) rest
            (if tyImplementsError t then isErrorType @ [i] else isErrorType))"

definition warningMoreThanOne :: string where
  "warningMoreThanOne = ''WARNING: more than one argument has type `error`'' @ [CHR 0x0A]"

text \<open>
  The rest of \<^verbatim>\<open>fixError\<close>, shared by both variants: from the two results of the first
  loop it chooses the error argument, warns, removes the argument and builds the new
  argument list. \<open>exprString\<close> is \<^verbatim>\<open>types.ExprString\<close> of the standard library.
\<close>

definition chooseAndRebuild ::
  "(expr \<Rightarrow> string) \<Rightarrow> expr list \<Rightarrow> nat list \<Rightarrow> int \<Rightarrow> (string \<times> expr list) res" where
  "chooseAndRebuild exprString args isErrorType isNamedErr =
     (let warn = (if length isErrorType \<noteq> 0 \<and> length isErrorType > 1
                  then [warningMoreThanOne] else []);
          errIndex = (if length isErrorType \<noteq> 0 then int (hd isErrorType)
                      else if isNamedErr \<ge> 0 then isNamedErr else - 1);
          errExpr = (if errIndex \<ge> 0 then exprString (args ! nat errIndex)
                     else ''FIXME__unknown_error_expr'');
          args' = (if errIndex \<ge> 0
                   then take (nat errIndex) args @ drop (nat errIndex + 1) args
                   else args)
      in (warn,
          case getFormatString args' of
            Inl p \<Rightarrow> Inl p
          | Inr lit \<Rightarrow> Inr (''Error'', genKeyValues 0 args' [newIdent errExpr, lit])))"

text \<open>\<^verbatim>\<open>logrFix.fixError\<close>; \<^verbatim>\<open>isNamedErr\<close> stays \<open>-1\<close> in this variant.\<close>

definition fixError :: "(expr \<Rightarrow> string) \<Rightarrow> expr list \<Rightarrow> (string \<times> expr list) res" where
  "fixError exprString args =
     (case collectErrorTypes 0 args [] of
        Inl p \<Rightarrow> throw p
      | Inr isErrorType \<Rightarrow> chooseAndRebuild exprString args isErrorType (- 1))"

text \<open>
  The earlier variant of the fix (package main) tests \<^verbatim>\<open>t.String() == "error"\<close> and
  remembers the last identifier named \<^verbatim>\<open>err\<close> whose type is not \<^verbatim>\<open>error\<close>.
\<close>

fun collectErrorTypes_main ::
  "nat \<Rightarrow> expr list \<Rightarrow> nat list \<Rightarrow> int \<Rightarrow> panic + nat list \<times> int" where
  "collectErrorTypes_main i [] isErrorType isNamedErr = Inr (isErrorType, isNamedErr)"
| "collectErrorTypes_main i (arg # rest) isErrorType isNamedErr =
     (case typeOf arg of
        None \<Rightarrow> Inl NilDereference
      | Some t \<Rightarrow>
          if tyString t = ''error''
          then collectErrorTypes_main (Suc i) rest (isErrorType @ [i]) isNamedErr
          else (case arg of
                  Ident _ name _ \<Rightarrow>
                    collectErrorTypes_main (Suc i) rest isErrorType
                      (if name = ''err'' then int i else isNamedErr)
                | _ \<Rightarrow> collectErrorTypes_main (Suc i) rest isErrorType isNamedErr))"

definition fixError_main :: "(expr \<Rightarrow> string) \<Rightarrow> expr list \<Rightarrow> (string \<times> expr list) res" where
  "fixError_main exprString args =
     (case collectErrorTypes_main 0 args [] (- 1) of
        Inl p \<Rightarrow> throw p
      | Inr (isErrorType, isNamedErr) \<Rightarrow> chooseAndRebuild exprString args isErrorType isNamedErr)"

text \<open>\<^verbatim>\<open>fixInitFlags\<close>: the new selector name.\<close>

definition fixInitFlags :: "string \<Rightarrow> string" where
  "fixInitFlags sel = ''FIXME__InitFlags_is_not_supported''"

section \<open>The logr fix: matching call shapes\<close>

text \<open>\<^verbatim>\<open>isPkgIdent\<close>; the callers have asserted that the node is an identifier.\<close>

fun isPkgIdent :: "string \<Rightarrow> expr \<Rightarrow> bool" where
  "isPkgIdent pkg (Ident _ name obj) = (name = pkg \<and> \<not> obj)"
| "isPkgIdent pkg _ = False"

text \<open>
  The cursor of \<^verbatim>\<open>astutil.Apply\<close> at a statement: the statement is an element of a
  statement list (with the statements before and after it), or it is held by a single
  field of its parent, where \<^verbatim>\<open>Index()\<close> is negative and \<^verbatim>\<open>InsertAfter\<close> panics.
\<close>

datatype cursor =
    InSlice "stmt list" stmt "stmt list"
  | InField stmt

fun Node :: "cursor \<Rightarrow> stmt" where
  "Node (InSlice _ n _) = n"
| "Node (InField n) = n"

fun setNode :: "cursor \<Rightarrow> stmt \<Rightarrow> cursor" where
  "setNode (InSlice before _ after) n = InSlice before n after"
| "setNode (InField _) n = InField n"

fun InsertAfter :: "cursor \<Rightarrow> stmt \<Rightarrow> panic + cursor" where
  "InsertAfter (InSlice before n after) new = Inr (InSlice before n (new # after))"
| "InsertAfter (InField n) new = Inl (Panic ''InsertAfter node not contained in slice'')"

definition osExit255 :: stmt where
  "osExit255 =
     ExprStmt (CallExpr None (SelectorExpr None (newIdent ''os'') ''Exit'')
                 [BasicLit None INT_tok ''255''])"

text \<open>
  \<^verbatim>\<open>logrFix.tryPkgStmtCall\<close>. The result is the function's boolean and the cursor with
  the mutations applied.
\<close>

definition tryPkgStmtCall :: "(expr \<Rightarrow> string) \<Rightarrow> string \<Rightarrow> cursor \<Rightarrow> (bool \<times> cursor) res" where
  "tryPkgStmtCall exprString pkgName cursor =
     (case Node cursor of
        ExprStmt (CallExpr tc (SelectorExpr ts (Ident ti name obj) sel) args) \<Rightarrow>
          if \<not> isPkgIdent pkgName (Ident ti name obj) then ret (False, cursor)
          else if sel = ''Fatal'' \<or> sel = ''Fatalf'' \<or> sel = ''Fatalln'' then
            andThen (fixError exprString args) (\<lambda>(sel', args').
              case InsertAfter cursor osExit255 of
                Inl p \<Rightarrow> throw p
              | Inr cursor' \<Rightarrow>
                  ret (True, setNode cursor'
                    (ExprStmt (CallExpr tc (SelectorExpr ts (newIdent ''log'') sel') args'))))
          else if sel = ''InitFlags'' then
            ret (True, setNode cursor
              (ExprStmt (CallExpr tc (SelectorExpr ts (newIdent ''log'') (fixInitFlags sel)) args)))
          else ret (False, cursor)
      | _ \<Rightarrow> ret (False, cursor))"

text \<open>
  \<^verbatim>\<open>tryPkgStmtCall\<close> of the earlier variant (package main): the same text, with the
  earlier \<^verbatim>\<open>fixError\<close>.
\<close>

definition tryPkgStmtCall_main ::
  "(expr \<Rightarrow> string) \<Rightarrow> string \<Rightarrow> cursor \<Rightarrow> (bool \<times> cursor) res" where
  "tryPkgStmtCall_main exprString pkgName cursor =
     (case Node cursor of
        ExprStmt (CallExpr tc (SelectorExpr ts (Ident ti name obj) sel) args) \<Rightarrow>
          if \<not> isPkgIdent pkgName (Ident ti name obj) then ret (False, cursor)
          else if sel = ''Fatal'' \<or> sel = ''Fatalf'' \<or> sel = ''Fatalln'' then
            andThen (fixError_main exprString args) (\<lambda>(sel', args').
              case InsertAfter cursor osExit255 of
                Inl p \<Rightarrow> throw p
              | Inr cursor' \<Rightarrow>
                  ret (True, setNode cursor'
                    (ExprStmt (CallExpr tc (SelectorExpr ts (newIdent ''log'') sel') args'))))
          else if sel = ''InitFlags'' then
            ret (True, setNode cursor
              (ExprStmt (CallExpr tc (SelectorExpr ts (newIdent ''log'') (fixInitFlags sel)) args)))
          else ret (False, cursor)
      | _ \<Rightarrow> ret (False, cursor))"

text \<open>\<^verbatim>\<open>logrFix.tryPkgExprCall\<close>, at an expression node.\<close>

definition tryPkgExprCall :: "(expr \<Rightarrow> string) \<Rightarrow> string \<Rightarrow> expr \<Rightarrow> (bool \<times> expr) res" where
  "tryPkgExprCall exprString pkgName e =
     (case e of
        CallExpr tc (SelectorExpr ts (Ident ti name obj) sel) args \<Rightarrow>
          if \<not> isPkgIdent pkgName (Ident ti name obj) then ret (False, e)
          else if sel \<in> {''Info'', ''Infof'', ''Infoln'', ''Warning'', ''Warningf'', ''Warningln''} then
            andThen (fixInfo args) (\<lambda>(sel', args').
              ret (True, CallExpr tc (SelectorExpr ts (newIdent ''log'') sel') args'))
          else if sel \<in> {''Error'', ''Errorf'', ''Errorln''} then
            andThen (fixError exprString args) (\<lambda>(sel', args').
              ret (True, CallExpr tc (SelectorExpr ts (newIdent ''log'') sel') args'))
          else if sel = ''V'' then
            ret (True, CallExpr tc (SelectorExpr ts (newIdent ''log'') sel) args)
          else ret (False, e)
      | _ \<Rightarrow> ret (False, e))"

text \<open>\<^verbatim>\<open>logrFix.tryPkgSymbol\<close>, at an expression node.\<close>

definition tryPkgSymbol :: "string \<Rightarrow> expr \<Rightarrow> bool \<times> expr" where
  "tryPkgSymbol pkgName e =
     (case e of
        SelectorExpr ts (Ident ti name obj) sel \<Rightarrow>
          if name \<noteq> pkgName \<or> obj then (False, e)
          else if sel = ''Level'' then (True, SelectorExpr ts (newIdent ''log'') sel)
          else (False, e)
      | _ \<Rightarrow> (False, e))"

text \<open>\<^verbatim>\<open>strings.LastIndexByte\<close>.\<close>

fun LastIndexByte :: "string \<Rightarrow> char \<Rightarrow> int" where
  "LastIndexByte [] c = - 1"
| "LastIndexByte (x # xs) c =
     (let r = LastIndexByte xs c
      in if r \<ge> 0 then r + 1 else if x = c then 0 else - 1)"

text \<open>\<^verbatim>\<open>logrFix.tryTypedCall\<close>, at an expression node.\<close>

definition tryTypedCall :: "string \<Rightarrow> expr \<Rightarrow> (bool \<times> expr) res" where
  "tryTypedCall pkgImport e =
     (case e of
        CallExpr tc (SelectorExpr ts x sel) args \<Rightarrow>
          (case typeOf x of
             None \<Rightarrow> ret (False, e)
           | Some t \<Rightarrow>
               let dot = LastIndexByte (tyString t) (CHR ''.'') in
               if dot < 0 then ret (False, e)
               else
                 let tp = take (nat dot) (tyString t);
                     tt = drop (nat dot + 1) (tyString t)
                 in if tp = [] \<or> tt = [] then ret (False, e)
                    else if tp \<noteq> pkgImport then ret (False, e)
                    else if tt = ''Verbose'' then
                      (if sel \<in> {''Info'', ''Infof'', ''Infoln''} then
                         andThen (fixInfo args) (\<lambda>(sel', args').
                           ret (True, CallExpr tc (SelectorExpr ts x sel') args'))
                       else ret (False, e))
                    else if tt = ''Level'' then ret (True, e)
                    else ret (False, e))
      | _ \<Rightarrow> ret (False, e))"

section \<open>Files, packages and the collaborators\<close>

text \<open>
  An import declaration: \<open>specName\<close> is \<^verbatim>\<open>Name.Name\<close> (\<open>None\<close> when \<^verbatim>\<open>Name\<close> is nil),
  \<open>specPath\<close> is \<^verbatim>\<open>Path.Value\<close>, the path literal with its quotes.
\<close>

record ImportSpec =
  specName :: "string option"
  specPath :: string

text \<open>
  A function declaration with its name and the statements of its body, or a declaration
  of another form with the expressions it holds.
\<close>

datatype decl = FuncDecl string "stmt list" | OtherDecl string "expr list"

record File =
  Imports :: "ImportSpec list"
  Decls :: "decl list"

text \<open>
  A Go \<^verbatim>\<open>error\<close> value: the error that \<^verbatim>\<open>ImportFrom\<close> makes with
  \<^verbatim>\<open>fmt.Errorf("import loop detected for package %s", ident)\<close>, the error with which the
  type checker reports that the importer failed on a path (it carries the importer's
  error), and any other error of a collaborator.
\<close>

datatype error =
    ImportLoopDetected string
  | CouldNotImport string error
  | OtherError string

datatype typesPackage = TypesPackage string

text \<open>The fields of \<^verbatim>\<open>build.Package\<close> that the program reads.\<close>

record buildPackage =
  Dir :: string
  GoFiles :: "string list"
  ImportPath :: string
  PkgName :: string

datatype buildMode = FindOnly | AllowBinary

record PackageInfo =
  ParseInfo :: typesPackage
  BuildInfo :: buildPackage
  Files :: "File option list"

record FileInfo =
  Name :: string
  Package :: PackageInfo
  AST :: File

text \<open>
  \<^verbatim>\<open>parser.ParseFile\<close> returns a file and no error, or an error with a partial file or
  none.
\<close>

datatype parsed = ParseOK File | ParseFailed "File option" error

text \<open>
  \<^verbatim>\<open>config.Check\<close> belongs to go/types, and it calls the importer back: its configuration
  names the \<^verbatim>\<open>KindaFastImporter\<close> as \<^verbatim>\<open>Importer\<close>, so while it checks the files of a
  package it calls \<^verbatim>\<open>ImportFrom(path, dir, 0)\<close> of that importer, one request after the
  other, and what it does next depends on what the importer has answered. A run of the
  checker is therefore a tree: it answers with an error or a package, or it asks for a
  path from a directory and goes on with the importer's answer. Nothing is assumed about
  which requests the checker makes, in which order, or when it gives up.
\<close>

datatype checker =
    Answer "error + typesPackage"
  | Ask string string "error + typesPackage \<Rightarrow> checker"

text \<open>
  The collaborators that the program calls and that are not part of it: functions of the
  standard library and of the Go tool chain, and the order in which concurrent tasks
  complete. \<open>types_Check path files\<close> is the run of \<^verbatim>\<open>config.Check\<close> on the files of the
  package \<open>path\<close>.
\<close>

record env =
  Unquote :: "string \<Rightarrow> string option"
  ExprString :: "expr \<Rightarrow> string"
  build_Import :: "string \<Rightarrow> string \<Rightarrow> buildMode list \<Rightarrow> error + buildPackage"
  filepath_Dir :: "string \<Rightarrow> string"
  filepath_Join :: "string \<Rightarrow> string \<Rightarrow> string"
  pathpkg_Join :: "string \<Rightarrow> string \<Rightarrow> string"
  format_Node :: "File \<Rightarrow> error + string"
  parser_ParseFile :: "string \<Rightarrow> string option \<Rightarrow> parsed"
  fastImporter_ImportFrom :: "string \<Rightarrow> string \<Rightarrow> error + typesPackage"
  types_Check :: "string \<Rightarrow> File option list \<Rightarrow> checker"
  taskOrder :: "buildPackage \<Rightarrow> nat list"

section \<open>The logr fix: one file\<close>

text \<open>
  The function that \<^verbatim>\<open>fix\<close> gives to \<^verbatim>\<open>astutil.Apply\<close> as its post-order visitor. At an
  expression node the type assertion of \<^verbatim>\<open>tryPkgStmtCall\<close> fails; at a statement node
  those of the other three fail.
\<close>

definition postExpr :: "(expr \<Rightarrow> string) \<Rightarrow> string \<Rightarrow> string \<Rightarrow> expr \<Rightarrow> expr res" where
  "postExpr exprString pkgName pkgImport e =
     andThen (tryPkgExprCall exprString pkgName e) (\<lambda>(_, e1).
       case tryPkgSymbol pkgName e1 of (_, e2) \<Rightarrow>
         andThen (tryTypedCall pkgImport e2) (\<lambda>(_, e3). ret e3))"

definition postStmt :: "(expr \<Rightarrow> string) \<Rightarrow> string \<Rightarrow> cursor \<Rightarrow> cursor res" where
  "postStmt exprString pkgName cursor =
     andThen (tryPkgStmtCall exprString pkgName cursor) (\<lambda>(_, cursor'). ret cursor')"

text \<open>
  \<^verbatim>\<open>astutil.Apply\<close> with a post-order visitor only: the children of a node first, in
  their order, then the node. A statement that \<^verbatim>\<open>InsertAfter\<close> added is not visited.
  \<open>applyChildren\<close> visits what is below a statement; the statement itself is visited by
  \<open>applyField\<close> when a single field of its parent holds it and by \<open>applyStmts\<close> when it is
  an element of a statement list.
\<close>

fun applyExpr :: "(expr \<Rightarrow> string) \<Rightarrow> string \<Rightarrow> string \<Rightarrow> expr \<Rightarrow> expr res"
  and applyExprs :: "(expr \<Rightarrow> string) \<Rightarrow> string \<Rightarrow> string \<Rightarrow> expr list \<Rightarrow> expr list res" where
  "applyExpr es pn pi (Ident t name obj) = postExpr es pn pi (Ident t name obj)"
| "applyExpr es pn pi (BasicLit t kind v) = postExpr es pn pi (BasicLit t kind v)"
| "applyExpr es pn pi (SelectorExpr t x sel) =
     andThen (applyExpr es pn pi x) (\<lambda>x'. postExpr es pn pi (SelectorExpr t x' sel))"
| "applyExpr es pn pi (CallExpr t f args) =
     andThen (applyExpr es pn pi f) (\<lambda>f'.
       andThen (applyExprs es pn pi args) (\<lambda>args'. postExpr es pn pi (CallExpr t f' args')))"
| "applyExpr es pn pi (OtherExpr t kind ops) =
     andThen (applyExprs es pn pi ops) (\<lambda>ops'. postExpr es pn pi (OtherExpr t kind ops'))"
| "applyExprs es pn pi [] = ret []"
| "applyExprs es pn pi (e # rest) =
     andThen (applyExpr es pn pi e) (\<lambda>e'.
       andThen (applyExprs es pn pi rest) (\<lambda>rest'. ret (e' # rest')))"

fun applyChildren :: "(expr \<Rightarrow> string) \<Rightarrow> string \<Rightarrow> string \<Rightarrow> stmt \<Rightarrow> stmt res"
  and applyField :: "(expr \<Rightarrow> string) \<Rightarrow> string \<Rightarrow> string \<Rightarrow> stmt \<Rightarrow> stmt res"
  and applyStmts ::
    "(expr \<Rightarrow> string) \<Rightarrow> string \<Rightarrow> string \<Rightarrow> stmt list \<Rightarrow> stmt list \<Rightarrow> stmt list res" where
  "applyChildren es pn pi (ExprStmt e) =
     andThen (applyExpr es pn pi e) (\<lambda>e'. ret (ExprStmt e'))"
| "applyChildren es pn pi (BlockStmt list) =
     andThen (applyStmts es pn pi [] list) (\<lambda>list'. ret (BlockStmt list'))"
| "applyChildren es pn pi (LabeledStmt label s) =
     andThen (applyField es pn pi s) (\<lambda>s'. ret (LabeledStmt label s'))"
| "applyChildren es pn pi (IfStmt init cond body els) =
     andThen (case init of None \<Rightarrow> ret None
              | Some s \<Rightarrow> andThen (applyField es pn pi s) (\<lambda>s'. ret (Some s'))) (\<lambda>init'.
       andThen (applyExpr es pn pi cond) (\<lambda>cond'.
         andThen (applyField es pn pi body) (\<lambda>body'.
           andThen (case els of None \<Rightarrow> ret None
                    | Some s \<Rightarrow> andThen (applyField es pn pi s) (\<lambda>s'. ret (Some s'))) (\<lambda>els'.
             ret (IfStmt init' cond' body' els')))))"
| "applyChildren es pn pi (OtherStmt kind ops) =
     andThen (applyExprs es pn pi ops) (\<lambda>ops'. ret (OtherStmt kind ops'))"
| "applyField es pn pi s =
     andThen (applyChildren es pn pi s) (\<lambda>s'.
       andThen (postStmt es pn (InField s')) (\<lambda>cursor. ret (Node cursor)))"
| "applyStmts es pn pi visited [] = ret visited"
| "applyStmts es pn pi visited (s # rest) =
     andThen (applyChildren es pn pi s) (\<lambda>s'.
       andThen (postStmt es pn (InSlice visited s' rest)) (\<lambda>cursor.
         case cursor of
           InSlice before n after \<Rightarrow>
             applyStmts es pn pi (before @ n # take (length after - length rest) after) rest
         | InField n \<Rightarrow> applyStmts es pn pi (visited @ [n]) rest))"

fun applyDecls :: "(expr \<Rightarrow> string) \<Rightarrow> string \<Rightarrow> string \<Rightarrow> decl list \<Rightarrow> decl list res" where
  "applyDecls es pn pi [] = ret []"
| "applyDecls es pn pi (FuncDecl name body # rest) =
     andThen (applyStmts es pn pi [] body) (\<lambda>body'.
       andThen (applyDecls es pn pi rest) (\<lambda>rest'. ret (FuncDecl name body' # rest')))"
| "applyDecls es pn pi (OtherDecl d ops # rest) =
     andThen (applyExprs es pn pi ops) (\<lambda>ops'.
       andThen (applyDecls es pn pi rest) (\<lambda>rest'. ret (OtherDecl d ops' # rest')))"

text \<open>\<^verbatim>\<open>importPath\<close>.\<close>

definition importPath :: "(string \<Rightarrow> string option) \<Rightarrow> ImportSpec \<Rightarrow> string" where
  "importPath unquote s = (case unquote (specPath s) of Some t \<Rightarrow> t | None \<Rightarrow> [])"

text \<open>
  \<^verbatim>\<open>getImportSpec\<close>. The Go function returns a pointer to the first matching element of
  \<^verbatim>\<open>file.Imports\<close>; the embedding returns its position.
\<close>

fun getImportSpec :: "(string \<Rightarrow> string option) \<Rightarrow> ImportSpec list \<Rightarrow> string \<Rightarrow> nat option" where
  "getImportSpec unquote [] pkg = None"
| "getImportSpec unquote (s # rest) pkg =
     (if importPath unquote s = pkg then Some 0
      else map_option Suc (getImportSpec unquote rest pkg))"

text \<open>
  \<^verbatim>\<open>logrFix.fix\<close> (\<open>fix\<close> is a keyword of Isabelle): the function's boolean and the
  file with the mutations applied. The log call for a failed build lookup is left out.
\<close>

definition logrFix_fix :: "env \<Rightarrow> string \<Rightarrow> FileInfo \<Rightarrow> (bool \<times> File) res" where
  "logrFix_fix env klogPkg info =
     (case getImportSpec (Unquote env) (Imports (AST info)) klogPkg of
        None \<Rightarrow> ret (False, AST info)
      | Some i \<Rightarrow>
          (case build_Import env klogPkg (filepath_Dir env (Name info)) [] of
             Inl err \<Rightarrow> ret (False, AST info)
           | Inr bldpkg \<Rightarrow>
               let pkgImport = ImportPath bldpkg;
                   impSpec = Imports (AST info) ! i;
                   pkgName = (case specName impSpec of Some alias \<Rightarrow> alias
                              | None \<Rightarrow> PkgName bldpkg);
                   imports' = (Imports (AST info))
                     [i := impSpec\<lparr>specPath := quote ''k8s.io/client-go/log''\<rparr>]
               in andThen (applyDecls (ExprString env) pkgName pkgImport (Decls (AST info)))
                    (\<lambda>decls'. ret (True, (AST info)\<lparr>Imports := imports', Decls := decls'\<rparr>))))"

section \<open>The rewrite engine\<close>

record Fix =
  fixName :: string
  Execute :: "FileInfo \<Rightarrow> (bool \<times> File) res"
  Description :: string

text \<open>\<^verbatim>\<open>LogrFix\<close>, without the load of the error interface.\<close>

definition LogrFix :: "env \<Rightarrow> string \<Rightarrow> Fix" where
  "LogrFix env klogPkg =
     \<lparr>fixName = ''logr'', Execute = logrFix_fix env klogPkg,
      Description = ''Converts klog calls to logr calls''\<rparr>"

text \<open>\<^verbatim>\<open>GofmtFile\<close>.\<close>

definition GofmtFile :: "env \<Rightarrow> File \<Rightarrow> error + string" where
  "GofmtFile env f = format_Node env f"

text \<open>
  The loop of \<^verbatim>\<open>Fixer.fixFile\<close> over the fixes: the error that ends it, or the file
  information and the flag \<^verbatim>\<open>fixed\<close> after the last fix.
\<close>

fun applyFixes :: "env \<Rightarrow> Fix list \<Rightarrow> FileInfo \<Rightarrow> bool \<Rightarrow> (error + FileInfo \<times> bool) res" where
  "applyFixes env [] info fixed = ret (Inr (info, fixed))"
| "applyFixes env (f # rest) info fixed =
     andThen (Execute f info) (\<lambda>(changed, ast).
       if changed then
         (case GofmtFile env ast of
            Inl err \<Rightarrow> ret (Inl err)
          | Inr newSrc \<Rightarrow>
              (case parser_ParseFile env (Name info) (Some newSrc) of
                 ParseFailed _ err \<Rightarrow> ret (Inl err)
               | ParseOK ast' \<Rightarrow> applyFixes env rest (info\<lparr>AST := ast'\<rparr>) True))
       else applyFixes env rest (info\<lparr>AST := ast\<rparr>) fixed)"

text \<open>
  \<^verbatim>\<open>Fixer.fixFile\<close>: the error it returns (\<open>None\<close> for nil) and the files it has handed to
  \<^verbatim>\<open>HandleFix\<close>.
\<close>

definition fixFile ::
  "env \<Rightarrow> Fix list \<Rightarrow> (FileInfo \<Rightarrow> error option) \<Rightarrow> FileInfo \<Rightarrow> (error option \<times> FileInfo list) res" where
  "fixFile env Fixes HandleFix info =
     andThen (applyFixes env Fixes info False) (\<lambda>r.
       case r of
         Inl err \<Rightarrow> ret (Some err, [])
       | Inr (info', fixed) \<Rightarrow>
           if \<not> fixed then ret (None, [])
           else ret (HandleFix info', [info']))"

section \<open>The importer\<close>

text \<open>
  \<^verbatim>\<open>KindaFastImporter\<close>, as far as it changes: the working directory and the map
  \<^verbatim>\<open>packages\<close>. A key of the map is a \<^verbatim>\<open>pkgIdent\<close>, whose only field is the path. An
  entry \<open>Some None\<close> is a present entry that holds nil: the package is being loaded.
\<close>

record importer =
  cwd :: string
  packages :: "string \<Rightarrow> PackageInfo option option"

text \<open>
  One task of \<^verbatim>\<open>parsePackageFiles\<close>: it parses the file with index \<open>ind\<close> and stores
  the file and the error in the slots with that index.
\<close>

definition parseTask ::
  "env \<Rightarrow> buildPackage \<Rightarrow> File option list \<times> error option list \<Rightarrow> nat \<Rightarrow>
   File option list \<times> error option list" where
  "parseTask env buildPkg slots ind =
     (case parser_ParseFile env (filepath_Join env (Dir buildPkg) (GoFiles buildPkg ! ind)) None of
        ParseOK f \<Rightarrow> ((fst slots)[ind := Some f], (snd slots)[ind := None])
      | ParseFailed f err \<Rightarrow> ((fst slots)[ind := f], (snd slots)[ind := Some err]))"

text \<open>The loop over \<^verbatim>\<open>errors\<close> after the tasks have been joined.\<close>

fun firstErrorLoop :: "error option list \<Rightarrow> error option \<Rightarrow> error option" where
  "firstErrorLoop [] firstError = firstError"
| "firstErrorLoop (err # rest) firstError =
     firstErrorLoop rest
       (case err of
          None \<Rightarrow> firstError
        | Some e \<Rightarrow> (if firstError = None then Some e else firstError))"

text \<open>
  \<^verbatim>\<open>parsePackageFiles\<close>. There is one task for each index of \<^verbatim>\<open>GoFiles\<close>; \<open>order\<close> is
  the order in which the tasks complete before \<^verbatim>\<open>wg.Wait()\<close> returns.
\<close>

definition parsePackageFiles ::
  "env \<Rightarrow> nat list \<Rightarrow> buildPackage \<Rightarrow> File option list \<times> error option" where
  "parsePackageFiles env order buildPkg =
     (let n = length (GoFiles buildPkg);
          slots = foldl (parseTask env buildPkg) (replicate n None, replicate n None) order
      in (fst slots, firstErrorLoop (snd slots) None))"

text \<open>
  The run of a checker against the importer: \<open>nested\<close> serves the requests, each on the
  state that the one before has left. \<open>None\<close> means that a request has not returned.
\<close>

primrec runCheck ::
  "(importer \<Rightarrow> string \<Rightarrow> string \<Rightarrow> ((error + typesPackage) \<times> importer) option) \<Rightarrow>
   checker \<Rightarrow> importer \<Rightarrow> ((error + typesPackage) \<times> importer) option" where
  "runCheck nested (Answer r) i = Some (r, i)"
| "runCheck nested (Ask path dir k) i =
     (case nested i path dir of
        None \<Rightarrow> None
      | Some (r, i') \<Rightarrow> runCheck nested (k r) i')"

text \<open>
  The text of \<^verbatim>\<open>KindaFastImporter.ImportFrom\<close>; \<open>nested\<close> serves the requests that the type
  checker makes during \<^verbatim>\<open>i.config.Check(path, i.fileSet, files, nil)\<close>. The result is the
  error or the package that the function returns, and the importer as the call leaves
  it. The log calls are left out.
\<close>

definition ImportFrom_via ::
  "(importer \<Rightarrow> string \<Rightarrow> string \<Rightarrow> ((error + typesPackage) \<times> importer) option) \<Rightarrow>
   env \<Rightarrow> importer \<Rightarrow> string \<Rightarrow> string \<Rightarrow> ((error + typesPackage) \<times> importer) option" where
  "ImportFrom_via nested env i path srcDir =
     (case packages i path of
        Some None \<Rightarrow> Some (Inl (ImportLoopDetected path), i)
      | Some (Some pkg) \<Rightarrow> Some (Inr (ParseInfo pkg), i)
      | None \<Rightarrow>
          let i1 = i\<lparr>packages := (packages i)(path \<mapsto> None)\<rparr>;
              fullDir = pathpkg_Join env (cwd i) srcDir
          in (case fastImporter_ImportFrom env path fullDir of
                Inr pkg \<Rightarrow>
                  (case build_Import env path fullDir [AllowBinary, FindOnly] of
                     Inl err \<Rightarrow> Some (Inl err, i1)
                   | Inr buildPkg \<Rightarrow>
                       Some (Inr pkg,
                             i1\<lparr>packages := (packages i1)(path \<mapsto>
                                   Some \<lparr>ParseInfo = pkg, BuildInfo = buildPkg, Files = []\<rparr>)\<rparr>))
              | Inl _ \<Rightarrow>
                  (case build_Import env path fullDir [AllowBinary] of
                     Inl err \<Rightarrow> Some (Inl err, i1)
                   | Inr buildPkg \<Rightarrow>
                       (case parsePackageFiles env (taskOrder env buildPkg) buildPkg of
                          (files, Some err) \<Rightarrow> Some (Inl err, i1)
                        | (files, None) \<Rightarrow>
                            (case runCheck nested (types_Check env path files) i1 of
                               None \<Rightarrow> None
                             | Some (Inl err, i2) \<Rightarrow> Some (Inl err, i2)
                             | Some (Inr pkg, i2) \<Rightarrow>
                                 Some (Inr pkg,
                                       i2\<lparr>packages := (packages i2)(path \<mapsto>
                                             Some \<lparr>ParseInfo = pkg, BuildInfo = buildPkg,
                                                   Files = files\<rparr>)\<rparr>))))))"

text \<open>
  \<^verbatim>\<open>KindaFastImporter.ImportFrom\<close>: the requests of the type checker are served by the
  function itself. The recursion through the type checker need not end (a chain of
  packages without end), so the function takes fuel: the depth of nested requests that
  is still allowed. \<open>None\<close> means that the fuel did not suffice.
\<close>

primrec ImportFrom ::
  "nat \<Rightarrow> env \<Rightarrow> importer \<Rightarrow> string \<Rightarrow> string \<Rightarrow> ((error + typesPackage) \<times> importer) option" where
  "ImportFrom 0 env = ImportFrom_via (\<lambda>i path srcDir. None) env"
| "ImportFrom (Suc fuel) env = ImportFrom_via (ImportFrom fuel env) env"

declare ImportFrom.simps [simp del]

section \<open>Notions used in the statements\<close>

text \<open>The argument has an entry in the type checker's table.\<close>

definition typed :: "expr \<Rightarrow> bool" where
  "typed e = (typeOf e \<noteq> None)"

text \<open>The static type of the argument implements the error interface.\<close>

definition errorCapable :: "expr \<Rightarrow> bool" where
  "errorCapable e = (case typeOf e of None \<Rightarrow> False | Some t \<Rightarrow> tyImplementsError t)"


text \<open>The key/value pair that an argument becomes.\<close>

definition keyValuePair :: "expr \<Rightarrow> expr list" where
  "keyValuePair arg = [BasicLit None STRING (keyOf arg), arg]"

definition isStringLit :: "expr \<Rightarrow> bool" where
  "isStringLit e = (case e of BasicLit _ kind _ \<Rightarrow> kind = STRING | _ \<Rightarrow> False)"

text \<open>The argument list without its first error-capable argument.\<close>

fun removeFirstError :: "expr list \<Rightarrow> expr list" where
  "removeFirstError [] = []"
| "removeFirstError (a # as) = (if errorCapable a then as else a # removeFirstError as)"

text \<open>The text of the first error-capable argument, or the placeholder.\<close>

definition errExprOf :: "(expr \<Rightarrow> string) \<Rightarrow> expr list \<Rightarrow> string" where
  "errExprOf es args =
     (case find errorCapable args of
        None \<Rightarrow> ''FIXME__unknown_error_expr''
      | Some e \<Rightarrow> es e)"

text \<open>
  The call of the specification's example, \<^verbatim>\<open>Error("update failed", err, userID)\<close>, and a
  second error variable.
\<close>

definition exFormat :: expr where
  "exFormat = BasicLit (Some \<lparr>tyString = ''string'', tyImplementsError = False\<rparr>) STRING
                (quote ''update failed'')"

definition exErr :: expr where
  "exErr = Ident (Some \<lparr>tyString = ''error'', tyImplementsError = True\<rparr>) ''err'' True"

definition exErr2 :: expr where
  "exErr2 = Ident (Some \<lparr>tyString = ''error'', tyImplementsError = True\<rparr>) ''err2'' True"

definition exUserID :: expr where
  "exUserID = Ident (Some \<lparr>tyString = ''int'', tyImplementsError = False\<rparr>) ''userID'' True"

text \<open>
  A printer that agrees with \<^verbatim>\<open>types.ExprString\<close> on identifiers, which it prints as
  their name, and on composite literals of a named type, which it prints as the type
  name and a pair of braces, with the three bytes of an ellipsis between them in place
  of the elements when there are any.
\<close>

definition ellipsis :: string where
  "ellipsis = [CHR 0xE2, CHR 0x80, CHR 0xA6]"

definition exExprString :: "expr \<Rightarrow> string" where
  "exExprString e =
     (case e of
        Ident _ name _ \<Rightarrow> name
      | OtherExpr _ kind (Ident _ tname _ # elts) \<Rightarrow>
          if kind = ''CompositeLit''
          then tname @ ''{'' @ (if elts = [] then [] else ellipsis) @ ''}''
          else ''expr''
      | _ \<Rightarrow> ''expr'')"



text \<open>A call \<^verbatim>\<open>klog.sel(args)\<close> as the parser leaves it.\<close>

definition klogCall :: "string \<Rightarrow> expr list \<Rightarrow> expr" where
  "klogCall sel args = CallExpr None (SelectorExpr None (Ident None ''klog'' False) sel) args"

text \<open>
  The identifier and selector names of an expression, and whether one of them is a
  placeholder of the fix, which all start with \<^verbatim>\<open>FIXME__\<close>.
\<close>

fun namesOf :: "expr \<Rightarrow> string list" where
  "namesOf (Ident _ name _) = [name]"
| "namesOf (BasicLit _ _ _) = []"
| "namesOf (SelectorExpr _ x sel) = namesOf x @ [sel]"
| "namesOf (CallExpr _ f args) = namesOf f @ concat (map namesOf args)"
| "namesOf (OtherExpr _ _ ops) = concat (map namesOf ops)"

definition hasPlaceholder :: "expr \<Rightarrow> bool" where
  "hasPlaceholder e = list_ex (\<lambda>name. take 7 name = ''FIXME__'') (namesOf e)"

text \<open>
  What the parser answers for the files of a package, in the order of \<^verbatim>\<open>GoFiles\<close>, and the
  file and the error of an answer.
\<close>

definition parseResults :: "env \<Rightarrow> buildPackage \<Rightarrow> parsed list" where
  "parseResults env buildPkg =
     map (\<lambda>filename. parser_ParseFile env (filepath_Join env (Dir buildPkg) filename) None)
       (GoFiles buildPkg)"

fun fileOf :: "parsed \<Rightarrow> File option" where
  "fileOf (ParseOK f) = Some f"
| "fileOf (ParseFailed f err) = f"

fun errorOf :: "parsed \<Rightarrow> error option" where
  "errorOf (ParseOK f) = None"
| "errorOf (ParseFailed f err) = Some err"

text \<open>
  The second importer has the working directory of the first and every entry that is
  present in the first.
\<close>

definition keeps :: "importer \<Rightarrow> importer \<Rightarrow> bool" where
  "keeps i i' = (cwd i' = cwd i \<and> (\<forall>q. packages i q \<noteq> None \<longrightarrow> packages i' q = packages i q))"

text \<open>
  An environment for the examples. \<^verbatim>\<open>Unquote\<close> strips the double quotes of a literal
  without escapes. The packages \<^verbatim>\<open>a\<close> and \<^verbatim>\<open>b\<close> have one file each and import each other;
  of the three files of the package in \<^verbatim>\<open>pkg\<close>, the second and the third do not parse;
  nothing has a precompiled form.

  The type checker of the examples does what go/types does, without an error handler, on
  files that have no error of their own: it asks for the import paths of the files in
  their order (not for \<^verbatim>\<open>C\<close>, since the configuration sets \<^verbatim>\<open>FakeImportC\<close>), from the
  directory of the package; at the first request that fails it ends with the error that
  carries the importer's error; when all have succeeded it answers with the package.
\<close>

definition unquotePlain :: "string \<Rightarrow> string option" where
  "unquotePlain s =
     (if 2 \<le> length s \<and> hd s = CHR 0x22 \<and> last s = CHR 0x22 then Some (butlast (tl s))
      else None)"

definition exImportPaths :: "File option list \<Rightarrow> string list" where
  "exImportPaths files =
     filter (\<lambda>path. path \<noteq> ''C'')
       (concat (map (\<lambda>f. case f of None \<Rightarrow> []
                         | Some file \<Rightarrow> map (importPath unquotePlain) (Imports file)) files))"

primrec exChecker :: "string \<Rightarrow> string list \<Rightarrow> typesPackage \<Rightarrow> checker" where
  "exChecker dir [] pkg = Answer (Inr pkg)"
| "exChecker dir (p # rest) pkg =
     Ask p dir (\<lambda>r. case r of
                       Inl err \<Rightarrow> Answer (Inl (CouldNotImport p err))
                     | Inr _ \<Rightarrow> exChecker dir rest pkg)"

definition exBuild :: "string \<Rightarrow> string list \<Rightarrow> buildPackage" where
  "exBuild path files = \<lparr>Dir = path, GoFiles = files, ImportPath = path, PkgName = path\<rparr>"

definition exFile :: "string list \<Rightarrow> File" where
  "exFile paths =
     \<lparr>Imports = map (\<lambda>p. \<lparr>specName = None, specPath = quote p\<rparr>) paths, Decls = []\<rparr>"

definition exEnv :: env where
  "exEnv =
     \<lparr>Unquote = unquotePlain,
      ExprString = exExprString,
      build_Import = (\<lambda>path dir mode.
        if path = ''a'' then Inr (exBuild ''a'' [''a.go''])
        else if path = ''b'' then Inr (exBuild ''b'' [''b.go''])
        else if path = ''k8s.io/klog''
          then Inr \<lparr>Dir = ''klog'', GoFiles = [''klog.go''], ImportPath = ''k8s.io/klog'',
                    PkgName = ''klog''\<rparr>
        else Inl (OtherError ''cannot find package'')),
      filepath_Dir = (\<lambda>name. ''.''),
      filepath_Join = (\<lambda>dir name. dir @ ''/'' @ name),
      pathpkg_Join = (\<lambda>dir name. dir @ ''/'' @ name),
      format_Node = (\<lambda>file. Inr ''package main''),
      parser_ParseFile = (\<lambda>filename src.
        if filename = ''a/a.go'' then ParseOK (exFile [''b''])
        else if filename = ''b/b.go'' then ParseOK (exFile [''a''])
        else if filename = ''pkg/b.go''
          then ParseFailed None (OtherError ''pkg/b.go:1:1: expected package'')
        else if filename = ''pkg/c.go''
          then ParseFailed None (OtherError ''pkg/c.go:3:1: expected declaration'')
        else ParseOK (exFile [])),
      fastImporter_ImportFrom = (\<lambda>path dir. Inl (OtherError ''no export data'')),
      types_Check = (\<lambda>path files. exChecker path (exImportPaths files) (TypesPackage path)),
      taskOrder = (\<lambda>buildPkg. rev [0..<length (GoFiles buildPkg)])\<rparr>"

definition exImporter :: importer where
  "exImporter = \<lparr>cwd = ''/work'', packages = Map.empty\<rparr>"



text \<open>
  Files for the examples: imports of the source and of the target package, a statement
  that does not mention the source package, and the environment without a build entry
  for any package.
\<close>

definition exPackageInfo :: PackageInfo where
  "exPackageInfo =
     \<lparr>ParseInfo = TypesPackage ''main'', BuildInfo = exBuild ''main'' [''main.go''], Files = []\<rparr>"

definition exInfo :: "ImportSpec list \<Rightarrow> decl list \<Rightarrow> FileInfo" where
  "exInfo specs decls =
     \<lparr>Name = ''main/main.go'', Package = exPackageInfo, AST = \<lparr>Imports = specs, Decls = decls\<rparr>\<rparr>"

definition exKlogImport :: ImportSpec where
  "exKlogImport = \<lparr>specName = None, specPath = quote ''k8s.io/klog''\<rparr>"

definition exKlogAlias :: ImportSpec where
  "exKlogAlias = \<lparr>specName = Some ''klog2'', specPath = quote ''k8s.io/klog''\<rparr>"

definition exTargetImport :: ImportSpec where
  "exTargetImport = \<lparr>specName = None, specPath = quote ''k8s.io/client-go/log''\<rparr>"

definition exPrintln :: stmt where
  "exPrintln =
     ExprStmt (CallExpr None (SelectorExpr None (Ident None ''fmt'' False) ''Println'') [exFormat])"

definition exEnvNoBuild :: env where
  "exEnvNoBuild = exEnv\<lparr>build_Import := (\<lambda>path dir mode. Inl (OtherError ''cannot find package''))\<rparr>"

section \<open>Properties of the argument restructuring\<close>

lemma genKeyValues_Suc:
  "genKeyValues (Suc i) args acc = acc @ concat (map keyValuePair args)"
  by (induction args arbitrary: i acc) (simp_all add: keyValuePair_def)

lemma genKeyValues_0:
  "genKeyValues 0 args acc = acc @ concat (map keyValuePair (tl args))"
  by (cases args) (simp_all add: genKeyValues_Suc)

lemma collectErrorTypes_skip:
  "\<forall>a\<in>set pre. typed a \<and> \<not> errorCapable a \<Longrightarrow>
   collectErrorTypes i (pre @ rest) acc = collectErrorTypes (i + length pre) rest acc"
  by (induction pre arbitrary: i) (auto simp: typed_def errorCapable_def split: option.splits)

lemma collectErrorTypes_typed:
  "\<forall>a\<in>set xs. typed a \<Longrightarrow>
   \<exists>ys. collectErrorTypes i xs acc = Inr (acc @ ys) \<and> (ys = [] \<longleftrightarrow> (\<forall>a\<in>set xs. \<not> errorCapable a))"
proof (induction xs arbitrary: i acc)
  case Nil
  then show ?case by simp
next
  case (Cons x xs)
  then obtain t where t: "typeOf x = Some t" by (auto simp: typed_def)
  from Cons.prems have "\<forall>a\<in>set xs. typed a" by simp
  from Cons.IH [OF this, of "Suc i" "if tyImplementsError t then acc @ [i] else acc"]
  show ?case using t by (auto simp: errorCapable_def)
qed

lemma fixError_chooses_first:
  assumes "\<forall>a\<in>set (pre @ e # post). typed a"
    and "\<forall>a\<in>set pre. \<not> errorCapable a"
    and "errorCapable e"
  shows "fixError es (pre @ e # post) =
           (if \<exists>a\<in>set post. errorCapable a then [warningMoreThanOne] else [],
            case getFormatString (pre @ post) of
              Inl p \<Rightarrow> Inl p
            | Inr lit \<Rightarrow> Inr (''Error'', [newIdent (es e), lit] @
                                         concat (map keyValuePair (tl (pre @ post)))))"
proof -
  obtain t where t: "typeOf e = Some t" "tyImplementsError t"
    using assms(3) by (auto simp: errorCapable_def split: option.splits)
  have skip: "collectErrorTypes 0 (pre @ e # post) [] = collectErrorTypes (length pre) (e # post) []"
    using collectErrorTypes_skip [of pre 0 "e # post" "[]"] assms(1,2) by simp
  from assms(1) have "\<forall>a\<in>set post. typed a" by simp
  from collectErrorTypes_typed [OF this, of "Suc (length pre)" "[length pre]"]
  obtain ys where ys: "collectErrorTypes (Suc (length pre)) post [length pre] = Inr ([length pre] @ ys)"
    "ys = [] \<longleftrightarrow> (\<forall>a\<in>set post. \<not> errorCapable a)" by blast
  have c: "collectErrorTypes 0 (pre @ e # post) [] = Inr (length pre # ys)"
    using skip t ys(1) by simp
  have td: "take (nat (int (length pre))) (pre @ e # post) @
            drop (nat (int (length pre)) + 1) (pre @ e # post) = pre @ post"
    by simp
  have nth: "(pre @ e # post) ! nat (int (length pre)) = e"
    by simp
  show ?thesis
    using ys(2) by (simp add: fixError_def c chooseAndRebuild_def Let_def genKeyValues_0 del: genKeyValues.simps cong: sum.case_cong)
qed




lemma getFormatString_panics:
  "args = [] \<or> \<not> isStringLit (hd args) \<Longrightarrow> \<exists>msg. getFormatString args = Inl (Panic msg)"
  by (cases args rule: getFormatString.cases) (auto simp: isStringLit_def)

lemma getFormatString_returns:
  "args \<noteq> [] \<Longrightarrow> isStringLit (hd args) \<Longrightarrow> getFormatString args = Inr (hd args)"
  by (cases args rule: getFormatString.cases) (auto simp: isStringLit_def)

lemma removeFirstError_none:
  "\<forall>a\<in>set args. \<not> errorCapable a \<Longrightarrow> removeFirstError args = args"
  by (induction args) auto

lemma removeFirstError_first:
  "\<forall>a\<in>set pre. \<not> errorCapable a \<Longrightarrow> errorCapable e \<Longrightarrow>
   removeFirstError (pre @ e # post) = pre @ post"
  by (induction pre) auto

lemma find_first:
  "\<forall>a\<in>set pre. \<not> P a \<Longrightarrow> P e \<Longrightarrow> find P (pre @ e # post) = Some e"
  by (induction pre) auto

lemma find_none: "\<forall>a\<in>set xs. \<not> P a \<Longrightarrow> find P xs = None"
  by (induction xs) auto

lemma fixError_none:
  assumes "\<forall>a\<in>set args. typed a" and "\<forall>a\<in>set args. \<not> errorCapable a"
  shows "fixError es args =
           ([], case getFormatString args of
                  Inl p \<Rightarrow> Inl p
                | Inr lit \<Rightarrow> Inr (''Error'', [newIdent ''FIXME__unknown_error_expr'', lit] @
                                           concat (map keyValuePair (tl args))))"
proof -
  from collectErrorTypes_typed [OF assms(1), of 0 "[]"] assms(2)
  have "collectErrorTypes 0 args [] = Inr []" by auto
  then show ?thesis
    by (simp add: fixError_def chooseAndRebuild_def genKeyValues_0 del: genKeyValues.simps cong: sum.case_cong)
qed

lemma fixError_typed:
  assumes "\<forall>a\<in>set args. typed a"
  shows "snd (fixError es args) =
           (case getFormatString (removeFirstError args) of
              Inl p \<Rightarrow> Inl p
            | Inr lit \<Rightarrow> Inr (''Error'', [newIdent (errExprOf es args), lit] @
                               concat (map keyValuePair (tl (removeFirstError args)))))"
proof (cases "\<exists>a\<in>set args. errorCapable a")
  case True
  then obtain pre e post where d: "args = pre @ e # post" "errorCapable e"
    "\<forall>a\<in>set pre. \<not> errorCapable a"
    using split_list_first_prop [of args errorCapable] by blast
  from fixError_chooses_first [of pre e post es] assms d
  show ?thesis
    by (simp add: removeFirstError_first errExprOf_def find_first cong: sum.case_cong)
next
  case False
  then have n: "\<forall>a\<in>set args. \<not> errorCapable a" by blast
  from fixError_none [OF assms n, of es] show ?thesis
    by (simp add: removeFirstError_none [OF n] errExprOf_def find_none [OF n] cong: sum.case_cong)
qed




text \<open>
  Claim C7, as amended. \<^verbatim>\<open>getFormatString\<close> panics when the argument list it receives is
  empty or does not start with a string basic literal, and the panic ends the rewrite
  that called it: the informational rewrite \<^verbatim>\<open>fixInfo\<close>, which
  hands it the call's arguments, and the error rewrite \<^verbatim>\<open>fixError\<close>, which hands it the
  call's arguments as they are once the chosen error argument has been removed. When the
  list starts with a string literal, no panic branch is taken and that literal itself is
  returned and becomes the message of the new call.
\<close>

theorem getFormatString_hard_precondition:
  "(args = [] \<or> \<not> isStringLit (hd args) \<longrightarrow>
      (\<exists>msg. getFormatString args = Inl (Panic msg)) \<and>
      (\<exists>msg. fixInfo args = ([], Inl (Panic msg))))
   \<and> (args \<noteq> [] \<and> isStringLit (hd args) \<longrightarrow>
      getFormatString args = Inr (hd args) \<and>
      fixInfo args = ([], Inr (''Info'', hd args # concat (map keyValuePair (tl args)))))
   \<and> ((\<forall>a\<in>set args. typed a) \<longrightarrow>
      (removeFirstError args = [] \<or> \<not> isStringLit (hd (removeFirstError args)) \<longrightarrow>
         (\<exists>msg. snd (fixError es args) = Inl (Panic msg))) \<and>
      (removeFirstError args \<noteq> [] \<and> isStringLit (hd (removeFirstError args)) \<longrightarrow>
         snd (fixError es args) =
           Inr (''Error'', newIdent (errExprOf es args) # hd (removeFirstError args) #
                           concat (map keyValuePair (tl (removeFirstError args))))))"
proof (intro conjI impI)
  assume h: "args = [] \<or> \<not> isStringLit (hd args)"
  from getFormatString_panics [OF h] show "\<exists>msg. getFormatString args = Inl (Panic msg)" .
  from getFormatString_panics [OF h] show "\<exists>msg. fixInfo args = ([], Inl (Panic msg))"
    by (auto simp: fixInfo_def throw_def)
next
  assume h: "args \<noteq> [] \<and> isStringLit (hd args)"
  then have g: "getFormatString args = Inr (hd args)"
    by (simp add: getFormatString_returns)
  show "getFormatString args = Inr (hd args)" by (rule g)
  from h obtain a rest where a: "args = a # rest" by (cases args) auto
  show "fixInfo args = ([], Inr (''Info'', hd args # concat (map keyValuePair (tl args))))"
    using g by (simp add: fixInfo_def ret_def genKeyValues_0 del: genKeyValues.simps)
next
  assume t: "\<forall>a\<in>set args. typed a"
    and h: "removeFirstError args = [] \<or> \<not> isStringLit (hd (removeFirstError args))"
  from getFormatString_panics [OF h] fixError_typed [OF t, of es]
  show "\<exists>msg. snd (fixError es args) = Inl (Panic msg)" by auto
next
  assume t: "\<forall>a\<in>set args. typed a"
    and h: "removeFirstError args \<noteq> [] \<and> isStringLit (hd (removeFirstError args))"
  then have g: "getFormatString (removeFirstError args) = Inr (hd (removeFirstError args))"
    by (simp add: getFormatString_returns)
  from h obtain a rest where a: "removeFirstError args = a # rest"
    by (cases "removeFirstError args") auto
  show "snd (fixError es args) =
           Inr (''Error'', newIdent (errExprOf es args) # hd (removeFirstError args) #
                           concat (map keyValuePair (tl (removeFirstError args))))"
    using fixError_typed [OF t, of es] g by simp
qed

theorem getFormatString_hard_precondition_witness:
  "(\<exists>msg. getFormatString [] = Inl (Panic msg))
   \<and> (\<exists>msg. fixInfo [exErr, exFormat] = ([], Inl (Panic msg)))
   \<and> (\<exists>msg. snd (fixError exExprString [exUserID, exFormat]) = Inl (Panic msg))
   \<and> getFormatString [exFormat, exUserID] = Inr exFormat
   \<and> fixInfo [exFormat, exUserID] =
        ([], Inr (''Info'', [exFormat, BasicLit None STRING (quote ''userID''), exUserID]))
   \<and> snd (fixError exExprString [exFormat, exUserID]) =
        Inr (''Error'', [Ident None ''FIXME__unknown_error_expr'' False, exFormat,
                         BasicLit None STRING (quote ''userID''), exUserID])"
  using getFormatString_hard_precondition [of "[]" exExprString]
    getFormatString_hard_precondition [of "[exErr, exFormat]" exExprString]
    getFormatString_hard_precondition [of "[exUserID, exFormat]" exExprString]
    getFormatString_hard_precondition [of "[exFormat, exUserID]" exExprString]
  by (simp add: exFormat_def exErr_def exUserID_def exExprString_def typed_def errorCapable_def
      isStringLit_def errExprOf_def keyValuePair_def newIdent_def)

text \<open>
  The claim as stated speaks of the call's argument list. For the error rewrite it fails
  at \<^verbatim>\<open>Error(err, "update failed")\<close> with \<^verbatim>\<open>err\<close> of type \<^verbatim>\<open>error\<close>: the first argument of
  the call is not a string literal, and the rewrite does not panic, because \<^verbatim>\<open>err\<close> is
  removed before the format string is taken.
\<close>

theorem getFormatString_hard_precondition_counterexample:
  "\<not> isStringLit exErr
   \<and> fixError exExprString [exErr, exFormat] =
       ([], Inr (''Error'', [Ident None ''err'' False, exFormat]))
   \<and> fixError_main exExprString [exErr, exFormat] =
       ([], Inr (''Error'', [Ident None ''err'' False, exFormat]))"
  by (simp add: fixError_def fixError_main_def chooseAndRebuild_def exFormat_def exErr_def
      exExprString_def isStringLit_def newIdent_def)

text \<open>
  Claim C8, as amended. Take an error-family call whose arguments are all typed, and let
  \<open>e\<close> be the first argument by position whose static type implements the error interface
  (\<open>pre\<close> are the arguments before it, \<open>post\<close> those after it). If \<open>post\<close> holds another such
  argument, \<^verbatim>\<open>fixError\<close> writes the warning to the standard error stream exactly once; if
  \<open>e\<close> is the only one, it writes nothing. The rewrite chooses \<open>e\<close> and removes it. When the
  arguments that remain start with a string literal, the run continues with \<open>e\<close>: the new
  call has the printed form of \<open>e\<close> as its first argument, then the literal, then the
  key/value pairs of the other arguments. When nothing remains, or what remains does not
  start with a string literal, \<^verbatim>\<open>getFormatString\<close> panics after the warning has been
  written, and the run does not continue.
\<close>

theorem fixError_warns_once:
  assumes "\<forall>a\<in>set (pre @ e # post). typed a"
    and "\<forall>a\<in>set pre. \<not> errorCapable a"
    and "errorCapable e"
  shows "fst (fixError es (pre @ e # post)) =
           (if \<exists>a\<in>set post. errorCapable a then [warningMoreThanOne] else [])
       \<and> (pre @ post \<noteq> [] \<and> isStringLit (hd (pre @ post)) \<longrightarrow>
            snd (fixError es (pre @ e # post)) =
              Inr (''Error'', [newIdent (es e), hd (pre @ post)] @
                              concat (map keyValuePair (tl (pre @ post)))))
       \<and> (pre @ post = [] \<or> \<not> isStringLit (hd (pre @ post)) \<longrightarrow>
            (\<exists>msg. snd (fixError es (pre @ e # post)) = Inl (Panic msg)))"
proof (intro conjI impI)
  show "fst (fixError es (pre @ e # post)) =
           (if \<exists>a\<in>set post. errorCapable a then [warningMoreThanOne] else [])"
    using fixError_chooses_first [OF assms, of es] by simp
next
  assume "pre @ post \<noteq> [] \<and> isStringLit (hd (pre @ post))"
  then have "getFormatString (pre @ post) = Inr (hd (pre @ post))"
    by (simp add: getFormatString_returns)
  then show "snd (fixError es (pre @ e # post)) =
              Inr (''Error'', [newIdent (es e), hd (pre @ post)] @
                              concat (map keyValuePair (tl (pre @ post))))"
    using fixError_chooses_first [OF assms, of es] by simp
next
  assume "pre @ post = [] \<or> \<not> isStringLit (hd (pre @ post))"
  then obtain msg where "getFormatString (pre @ post) = Inl (Panic msg)"
    using getFormatString_panics by blast
  then show "\<exists>msg. snd (fixError es (pre @ e # post)) = Inl (Panic msg)"
    using fixError_chooses_first [OF assms, of es] by simp
qed

theorem fixError_warns_once_witness:
  "typed exFormat \<and> typed exErr \<and> typed exErr2 \<and> typed exUserID
   \<and> \<not> errorCapable exFormat \<and> errorCapable exErr \<and> errorCapable exErr2
   \<and> isStringLit exFormat
   \<and> fst (fixError exExprString [exFormat, exErr, exErr2, exUserID]) = [warningMoreThanOne]
   \<and> snd (fixError exExprString [exFormat, exErr, exErr2, exUserID]) =
        Inr (''Error'', [Ident None ''err'' False, exFormat,
                         BasicLit None STRING (quote ''err2''), exErr2,
                         BasicLit None STRING (quote ''userID''), exUserID])
   \<and> fst (fixError exExprString [exFormat, exErr, exUserID]) = []
   \<and> fst (fixError exExprString [exErr, exErr2]) = [warningMoreThanOne]
   \<and> (\<exists>msg. snd (fixError exExprString [exErr, exErr2]) = Inl (Panic msg))"
  using fixError_warns_once [of "[exFormat]" exErr "[exErr2, exUserID]" exExprString]
    fixError_warns_once [of "[exFormat]" exErr "[exUserID]" exExprString]
    fixError_warns_once [of "[]" exErr "[exErr2]" exExprString]
  by (simp add: exFormat_def exErr_def exErr2_def exUserID_def exExprString_def typed_def
      errorCapable_def keyValuePair_def newIdent_def isStringLit_def)

text \<open>
  The claim as stated, that the run continues with the first argument whenever more than
  one qualifies, fails for \<^verbatim>\<open>Error(err, err2)\<close>: both arguments have type \<^verbatim>\<open>error\<close>, the
  warning is written, \<^verbatim>\<open>err\<close> is removed, and \<^verbatim>\<open>getFormatString\<close> panics on \<^verbatim>\<open>err2\<close>.
\<close>

theorem fixError_warns_once_counterexample:
  "typed exErr \<and> typed exErr2 \<and> errorCapable exErr \<and> errorCapable exErr2
   \<and> fixError exExprString [exErr, exErr2] =
        ([warningMoreThanOne], Inl (Panic ''First call argument is not a literal''))"
  by (simp add: exErr_def exErr2_def typed_def errorCapable_def fixError_def
      chooseAndRebuild_def)

section \<open>Properties of the statement-level and symbol-level rewrites\<close>

lemma fixError_selector:
  "fixError es args = (out, Inr (sel', args')) \<Longrightarrow> sel' = ''Error''"
  by (auto simp: fixError_def chooseAndRebuild_def throw_def Let_def split: sum.splits)

lemma fixError_main_selector:
  "fixError_main es args = (out, Inr (sel', args')) \<Longrightarrow> sel' = ''Error''"
  by (auto simp: fixError_main_def chooseAndRebuild_def throw_def Let_def split: sum.splits)

text \<open>
  Claim C5, as amended. Take a statement \<^verbatim>\<open>pkg.Fatal(...)\<close>, \<^verbatim>\<open>pkg.Fatalf(...)\<close> or
  \<^verbatim>\<open>pkg.Fatalln(...)\<close> that is an element of a statement list and whose qualifier is the
  package identifier (the package's name, bound to no object). If the error algorithm
  \<^verbatim>\<open>fixError\<close> yields the arguments \<open>args'\<close> for the call's arguments, then
  \<^verbatim>\<open>tryPkgStmtCall\<close> reports a match, the statement becomes \<^verbatim>\<open>log.Error(args')\<close>, and the
  statement \<^verbatim>\<open>os.Exit(255)\<close> stands immediately after it in the same list, before the
  statements that followed. If \<^verbatim>\<open>fixError\<close> panics, so does \<^verbatim>\<open>tryPkgStmtCall\<close>, and nothing
  is rewritten or inserted. The same holds for the earlier variant of the two functions.
\<close>

theorem tryPkgStmtCall_fatal:
  assumes "sel = ''Fatal'' \<or> sel = ''Fatalf'' \<or> sel = ''Fatalln''"
    and "stmt = ExprStmt (CallExpr tc (SelectorExpr ts (Ident ti pkgName False) sel) args)"
    and "stmt' = ExprStmt (CallExpr tc (SelectorExpr ts (Ident None ''log'' False) ''Error'') args')"
    and "exit = ExprStmt (CallExpr None (SelectorExpr None (Ident None ''os'' False) ''Exit'')
                            [BasicLit None INT_tok ''255''])"
  shows "(fixError es args = (out, Inr (sel', args')) \<longrightarrow>
          tryPkgStmtCall es pkgName (InSlice before stmt after) =
            (out, Inr (True, InSlice before stmt' (exit # after))))
       \<and> (fixError es args = (out, Inl p) \<longrightarrow>
          tryPkgStmtCall es pkgName (InSlice before stmt after) = (out, Inl p))
       \<and> (fixError_main es args = (out, Inr (sel', args')) \<longrightarrow>
          tryPkgStmtCall_main es pkgName (InSlice before stmt after) =
            (out, Inr (True, InSlice before stmt' (exit # after))))
       \<and> (fixError_main es args = (out, Inl p) \<longrightarrow>
          tryPkgStmtCall_main es pkgName (InSlice before stmt after) = (out, Inl p))"
proof (intro conjI impI)
  assume f: "fixError es args = (out, Inr (sel', args'))"
  then have "sel' = ''Error''" by (rule fixError_selector)
  with assms f show "tryPkgStmtCall es pkgName (InSlice before stmt after) =
            (out, Inr (True, InSlice before stmt' (exit # after)))"
    by (auto simp: tryPkgStmtCall_def andThen_def ret_def osExit255_def newIdent_def)
next
  assume "fixError es args = (out, Inl p)"
  with assms show "tryPkgStmtCall es pkgName (InSlice before stmt after) = (out, Inl p)"
    by (auto simp: tryPkgStmtCall_def andThen_def)
next
  assume f: "fixError_main es args = (out, Inr (sel', args'))"
  then have "sel' = ''Error''" by (rule fixError_main_selector)
  with assms f show "tryPkgStmtCall_main es pkgName (InSlice before stmt after) =
            (out, Inr (True, InSlice before stmt' (exit # after)))"
    by (auto simp: tryPkgStmtCall_main_def andThen_def ret_def osExit255_def newIdent_def)
next
  assume "fixError_main es args = (out, Inl p)"
  with assms show "tryPkgStmtCall_main es pkgName (InSlice before stmt after) = (out, Inl p)"
    by (auto simp: tryPkgStmtCall_main_def andThen_def)
qed

theorem tryPkgStmtCall_fatal_witness:
  "fixError exExprString [exFormat] =
     ([], Inr (''Error'', [Ident None ''FIXME__unknown_error_expr'' False, exFormat]))
   \<and> tryPkgStmtCall exExprString ''klog''
       (InSlice [] (ExprStmt (klogCall ''Fatal'' [exFormat])) [OtherStmt ''return'' []]) =
     ([], Inr (True,
        InSlice []
          (ExprStmt (CallExpr None (SelectorExpr None (Ident None ''log'' False) ''Error'')
                       [Ident None ''FIXME__unknown_error_expr'' False, exFormat]))
          [ExprStmt (CallExpr None (SelectorExpr None (Ident None ''os'' False) ''Exit'')
                       [BasicLit None INT_tok ''255'']),
           OtherStmt ''return'' []]))
   \<and> fixError_main exExprString [exFormat] =
     ([], Inr (''Error'', [Ident None ''FIXME__unknown_error_expr'' False, exFormat]))
   \<and> tryPkgStmtCall_main exExprString ''klog''
       (InSlice [] (ExprStmt (klogCall ''Fatal'' [exFormat])) [OtherStmt ''return'' []]) =
     ([], Inr (True,
        InSlice []
          (ExprStmt (CallExpr None (SelectorExpr None (Ident None ''log'' False) ''Error'')
                       [Ident None ''FIXME__unknown_error_expr'' False, exFormat]))
          [ExprStmt (CallExpr None (SelectorExpr None (Ident None ''os'' False) ''Exit'')
                       [BasicLit None INT_tok ''255'']),
           OtherStmt ''return'' []]))
   \<and> fixError exExprString [exErr] = ([], Inl (Panic ''No call arguments found''))
   \<and> tryPkgStmtCall exExprString ''klog''
       (InSlice [] (ExprStmt (klogCall ''Fatal'' [exErr])) [OtherStmt ''return'' []]) =
     ([], Inl (Panic ''No call arguments found''))"
proof -
  have a: "fixError exExprString [exFormat] =
     ([], Inr (''Error'', [Ident None ''FIXME__unknown_error_expr'' False, exFormat]))"
    by (simp add: fixError_def chooseAndRebuild_def exFormat_def newIdent_def)
  have a': "fixError_main exExprString [exFormat] =
     ([], Inr (''Error'', [Ident None ''FIXME__unknown_error_expr'' False, exFormat]))"
    by (simp add: fixError_main_def chooseAndRebuild_def exFormat_def newIdent_def)
  have b: "fixError exExprString [exErr] = ([], Inl (Panic ''No call arguments found''))"
    by (simp add: fixError_def chooseAndRebuild_def exErr_def)
  have s: "''Fatal'' = ''Fatal'' \<or> ''Fatal'' = ''Fatalf'' \<or> ''Fatal'' = ''Fatalln''"
    by simp
  from tryPkgStmtCall_fatal
    [where es = exExprString and args = "[exFormat]" and out = "[]" and sel' = "''Error''"
       and args' = "[Ident None ''FIXME__unknown_error_expr'' False, exFormat]"
       and pkgName = "''klog''" and before = "[]" and after = "[OtherStmt ''return'' []]"
       and tc = None and ts = None and ti = None, OF s refl refl refl]
    a a'
  have 1: "tryPkgStmtCall exExprString ''klog''
       (InSlice [] (ExprStmt (klogCall ''Fatal'' [exFormat])) [OtherStmt ''return'' []]) =
     ([], Inr (True,
        InSlice []
          (ExprStmt (CallExpr None (SelectorExpr None (Ident None ''log'' False) ''Error'')
                       [Ident None ''FIXME__unknown_error_expr'' False, exFormat]))
          [ExprStmt (CallExpr None (SelectorExpr None (Ident None ''os'' False) ''Exit'')
                       [BasicLit None INT_tok ''255'']),
           OtherStmt ''return'' []]))"
    and 2: "tryPkgStmtCall_main exExprString ''klog''
       (InSlice [] (ExprStmt (klogCall ''Fatal'' [exFormat])) [OtherStmt ''return'' []]) =
     ([], Inr (True,
        InSlice []
          (ExprStmt (CallExpr None (SelectorExpr None (Ident None ''log'' False) ''Error'')
                       [Ident None ''FIXME__unknown_error_expr'' False, exFormat]))
          [ExprStmt (CallExpr None (SelectorExpr None (Ident None ''os'' False) ''Exit'')
                       [BasicLit None INT_tok ''255'']),
           OtherStmt ''return'' []]))"
    by (simp_all add: klogCall_def)
  from tryPkgStmtCall_fatal
    [where es = exExprString and args = "[exErr]" and out = "[]"
       and p = "Panic ''No call arguments found''"
       and pkgName = "''klog''" and before = "[]" and after = "[OtherStmt ''return'' []]"
       and tc = None and ts = None and ti = None, OF s refl refl refl]
    b
  have 3: "tryPkgStmtCall exExprString ''klog''
       (InSlice [] (ExprStmt (klogCall ''Fatal'' [exErr])) [OtherStmt ''return'' []]) =
     ([], Inl (Panic ''No call arguments found''))"
    by (simp add: klogCall_def)
  from a a' b 1 2 3 show ?thesis by blast
qed

text \<open>
  The claim as stated, for every such statement, fails at \<^verbatim>\<open>klog.Fatal(err)\<close> with \<^verbatim>\<open>err\<close> of
  type \<^verbatim>\<open>error\<close>: the error argument is removed, no format string is left, and the run
  panics.
\<close>

theorem tryPkgStmtCall_fatal_counterexample:
  "tryPkgStmtCall exExprString ''klog''
     (InSlice [] (ExprStmt (klogCall ''Fatal'' [exErr])) []) =
   ([], Inl (Panic ''No call arguments found''))"
  by (simp add: tryPkgStmtCall_def klogCall_def fixError_def chooseAndRebuild_def exErr_def
      andThen_def)

text \<open>
  Claim C6, as amended. A statement \<^verbatim>\<open>pkg.InitFlags(...)\<close> whose qualifier is the package
  identifier keeps its arguments, gets the selector
  \<^verbatim>\<open>FIXME__InitFlags_is_not_supported\<close> and the qualifier \<^verbatim>\<open>log\<close>, so the result holds a
  placeholder name. A reference \<^verbatim>\<open>pkg.Level\<close> keeps its selector and gets the qualifier
  \<^verbatim>\<open>log\<close>; the result \<^verbatim>\<open>log.Level\<close> holds no placeholder name.
\<close>

theorem unsupported_constructs:
  assumes "Node cursor =
             ExprStmt (CallExpr tc (SelectorExpr ts (Ident ti pkgName False) ''InitFlags'') args)"
  shows "tryPkgStmtCall es pkgName cursor =
           ([], Inr (True, setNode cursor
              (ExprStmt (CallExpr tc
                 (SelectorExpr ts (Ident None ''log'' False) ''FIXME__InitFlags_is_not_supported'')
                 args))))
       \<and> hasPlaceholder (CallExpr tc
            (SelectorExpr ts (Ident None ''log'' False) ''FIXME__InitFlags_is_not_supported'') args)
       \<and> tryPkgSymbol pkgName (SelectorExpr ts' (Ident ti' pkgName False) ''Level'') =
           (True, SelectorExpr ts' (Ident None ''log'' False) ''Level'')
       \<and> \<not> hasPlaceholder (SelectorExpr ts' (Ident None ''log'' False) ''Level'')"
  using assms
  by (simp add: tryPkgStmtCall_def ret_def fixInitFlags_def newIdent_def hasPlaceholder_def
      tryPkgSymbol_def)

theorem unsupported_constructs_witness:
  "tryPkgStmtCall exExprString ''klog'' (InSlice [] (ExprStmt (klogCall ''InitFlags'' [])) []) =
     ([], Inr (True, InSlice []
        (ExprStmt (CallExpr None
           (SelectorExpr None (Ident None ''log'' False) ''FIXME__InitFlags_is_not_supported'') []))
        []))
   \<and> tryPkgSymbol ''klog'' (SelectorExpr None (Ident None ''klog'' False) ''Level'') =
       (True, SelectorExpr None (Ident None ''log'' False) ''Level'')"
  using unsupported_constructs [of "InSlice [] (ExprStmt (klogCall ''InitFlags'' [])) []"
      None None None "''klog''" "[]" exExprString None None]
  by (simp add: klogCall_def)

text \<open>
  The claim as stated says that the output for \<^verbatim>\<open>pkg.Level\<close> holds a placeholder token
  too; the reference is matched and its result holds none.
\<close>

theorem unsupported_constructs_counterexample:
  "fst (tryPkgSymbol ''klog'' (SelectorExpr None (Ident None ''klog'' False) ''Level''))
   \<and> \<not> hasPlaceholder
         (snd (tryPkgSymbol ''klog'' (SelectorExpr None (Ident None ''klog'' False) ''Level'')))"
  by (simp add: tryPkgSymbol_def newIdent_def hasPlaceholder_def)

section \<open>Properties of the fix on a file and of the engine\<close>

lemma getImportSpec_Some:
  "getImportSpec unq specs pkg = Some i \<Longrightarrow>
   i < length specs \<and> importPath unq (specs ! i) = pkg \<and>
   (\<forall>j<i. importPath unq (specs ! j) \<noteq> pkg)"
proof (induction specs arbitrary: i)
  case Nil
  then show ?case by simp
next
  case (Cons s specs)
  show ?case
  proof (cases "importPath unq s = pkg")
    case True
    with Cons.prems show ?thesis by simp
  next
    case False
    with Cons.prems obtain k where k: "getImportSpec unq specs pkg = Some k" "i = Suc k"
      by auto
    from Cons.IH [OF k(1)] False k(2) show ?thesis
      by (auto simp: less_Suc_eq_0_disj)
  qed
qed

lemma getImportSpec_None:
  "(getImportSpec unq specs pkg = None) = (\<forall>s\<in>set specs. importPath unq s \<noteq> pkg)"
  by (induction specs) auto

lemma rewritten_imports_aux:
  "getImportSpec unq specs pkg = Some i \<Longrightarrow>
   length (filter (\<lambda>s. importPath unq s = pkg) specs) \<le> 1 \<Longrightarrow>
   (\<forall>s. importPath unq (f s) \<noteq> pkg) \<Longrightarrow>
   getImportSpec unq (specs[i := f (specs ! i)]) pkg = None"
proof (induction specs arbitrary: i)
  case Nil
  then show ?case by simp
next
  case (Cons s specs)
  show ?case
  proof (cases "importPath unq s = pkg")
    case True
    with Cons.prems have i: "i = 0" and e: "filter (\<lambda>s. importPath unq s = pkg) specs = []"
      by simp_all
    from e have "getImportSpec unq specs pkg = None"
      by (simp add: getImportSpec_None filter_empty_conv)
    with i Cons.prems(3) show ?thesis by simp
  next
    case False
    with Cons.prems obtain k where k: "getImportSpec unq specs pkg = Some k" "i = Suc k"
      by auto
    from Cons.prems(2) False have "length (filter (\<lambda>s. importPath unq s = pkg) specs) \<le> 1"
      by simp
    from Cons.IH [OF k(1) this Cons.prems(3)] False k(2) show ?thesis by simp
  qed
qed

lemma rewritten_imports_no_match:
  assumes "getImportSpec unq specs pkg = Some i"
    and "length (filter (\<lambda>s. importPath unq s = pkg) specs) \<le> 1"
    and "unq lit = Some target" and "pkg \<noteq> target"
  shows "getImportSpec unq (specs[i := (specs ! i)\<lparr>specPath := lit\<rparr>]) pkg = None"
  using rewritten_imports_aux [OF assms(1,2), of "\<lambda>s. s\<lparr>specPath := lit\<rparr>"] assms(3,4)
  by (simp add: importPath_def)

lemma logrFix_fix_no_import:
  "getImportSpec (Unquote env) (Imports (AST info)) klogPkg = None \<Longrightarrow>
   logrFix_fix env klogPkg info = ([], Inr (False, AST info))"
  by (simp add: logrFix_fix_def ret_def)

lemma logrFix_fix_cases:
  assumes "logrFix_fix env klogPkg info = (out, Inr (changed, file'))"
  shows "(\<not> changed \<and> file' = AST info \<and> out = [] \<and>
           logrFix_fix env klogPkg info = ([], Inr (False, AST info)))
       \<or> (\<exists>i decls'. changed \<and>
            getImportSpec (Unquote env) (Imports (AST info)) klogPkg = Some i \<and>
            file' = (AST info)\<lparr>Imports := (Imports (AST info))
                       [i := (Imports (AST info) ! i)\<lparr>specPath := quote ''k8s.io/client-go/log''\<rparr>],
                     Decls := decls'\<rparr>)"
proof (cases "getImportSpec (Unquote env) (Imports (AST info)) klogPkg")
  case None
  with assms show ?thesis by (simp add: logrFix_fix_def ret_def)
next
  case (Some i)
  show ?thesis
  proof (cases "build_Import env klogPkg (filepath_Dir env (Name info)) []")
    case (Inl err)
    with assms Some show ?thesis by (simp add: logrFix_fix_def ret_def)
  next
    case (Inr bldpkg)
    with assms Some show ?thesis
      by (auto simp: logrFix_fix_def ret_def andThen_def Let_def
          split: prod.splits sum.splits)
  qed
qed

lemma applyFixes_fixed:
  "applyFixes env fs info True = (out, Inr (Inr (info', fixed))) \<Longrightarrow> fixed"
proof (induction fs arbitrary: info out)
  case Nil
  then show ?case by (simp add: ret_def)
next
  case (Cons f fs)
  obtain o1 r1 where e: "Execute f info = (o1, r1)" by (cases "Execute f info")
  show ?case
  proof (cases r1)
    case (Inl p)
    with Cons.prems e show ?thesis by (simp add: andThen_def)
  next
    case (Inr cr)
    obtain changed ast where cr: "cr = (changed, ast)" by (cases cr)
    from Cons.prems e Inr cr
    obtain other o2 where "applyFixes env fs other True = (o2, Inr (Inr (info', fixed)))"
      by (auto simp: andThen_def ret_def split: if_splits sum.splits parsed.splits prod.splits)
    then show ?thesis by (rule Cons.IH)
  qed
qed

lemma logrFix_fix_changed:
  assumes "getImportSpec (Unquote env) (Imports (AST info)) klogPkg = Some i"
    and "build_Import env klogPkg (filepath_Dir env (Name info)) [] = Inr bldpkg"
    and "applyDecls (ExprString env)
           (case specName (Imports (AST info) ! i) of Some alias \<Rightarrow> alias
            | None \<Rightarrow> PkgName bldpkg)
           (ImportPath bldpkg) (Decls (AST info)) = (out, Inr decls')"
  shows "logrFix_fix env klogPkg info =
           (out, Inr (True, (AST info)\<lparr>Imports := (Imports (AST info))
                    [i := (Imports (AST info) ! i)\<lparr>specPath := quote ''k8s.io/client-go/log''\<rparr>],
                  Decls := decls'\<rparr>))"
  using assms by (simp add: logrFix_fix_def andThen_def ret_def Let_def)

lemma ex_getImportSpec:
  "getImportSpec (Unquote exEnv) [exKlogImport] ''k8s.io/klog'' = Some 0"
  by (simp add: exKlogImport_def exEnv_def importPath_def unquotePlain_def quote_def)

lemma ex_applyDecls:
  "applyDecls (ExprString exEnv) ''klog'' ''k8s.io/klog'' [FuncDecl ''main'' [exPrintln]] =
     ([], Inr [FuncDecl ''main'' [exPrintln]])"
  by (simp add: exPrintln_def exFormat_def postStmt_def postExpr_def tryPkgStmtCall_def
      tryPkgExprCall_def tryPkgSymbol_def tryTypedCall_def andThen_def ret_def)

lemma ex_unquote_target:
  "Unquote exEnv (quote ''k8s.io/client-go/log'') = Some ''k8s.io/client-go/log''"
  by (simp add: exEnv_def unquotePlain_def quote_def)

lemma ex_build_klog:
  "build_Import exEnv ''k8s.io/klog'' dir mode =
     Inr \<lparr>Dir = ''klog'', GoFiles = [''klog.go''], ImportPath = ''k8s.io/klog'', PkgName = ''klog''\<rparr>"
  by (simp add: exEnv_def)

lemma ex_first_run:
  "logrFix_fix exEnv ''k8s.io/klog'' (exInfo [exKlogImport] [FuncDecl ''main'' [exPrintln]]) =
     ([], Inr (True, \<lparr>Imports = [exTargetImport], Decls = [FuncDecl ''main'' [exPrintln]]\<rparr>))"
proof -
  let ?info = "exInfo [exKlogImport] [FuncDecl ''main'' [exPrintln]]"
  let ?bld = "\<lparr>Dir = ''klog'', GoFiles = [''klog.go''], ImportPath = ''k8s.io/klog'',
               PkgName = ''klog''\<rparr>"
  have g: "getImportSpec (Unquote exEnv) (Imports (AST ?info)) ''k8s.io/klog'' = Some 0"
    using ex_getImportSpec by (simp add: exInfo_def)
  have b: "build_Import exEnv ''k8s.io/klog'' (filepath_Dir exEnv (Name ?info)) [] = Inr ?bld"
    by (rule ex_build_klog)
  have d: "applyDecls (ExprString exEnv)
             (case specName (Imports (AST ?info) ! 0) of Some alias \<Rightarrow> alias
              | None \<Rightarrow> PkgName ?bld)
             (ImportPath ?bld) (Decls (AST ?info)) = ([], Inr [FuncDecl ''main'' [exPrintln]])"
    using ex_applyDecls by (simp add: exInfo_def exKlogImport_def)
  from logrFix_fix_changed [OF g b d] show ?thesis
    by (simp add: exInfo_def exKlogImport_def exTargetImport_def)
qed

text \<open>
  A run of the fix on a file with the body
  \<^verbatim>\<open>if err != nil { klog.Fatal("update failed") }; klog.Errorf("update failed", err, userID)\<close>:
  the import is rewritten, the fatal call becomes an error call followed by the exit
  statement inside its block, and the error call gets \<^verbatim>\<open>err\<close> first and the pair for
  \<^verbatim>\<open>userID\<close> last.
\<close>

lemma logrFix_fix_example:
  "logrFix_fix exEnv ''k8s.io/klog''
     (exInfo [exKlogImport]
        [FuncDecl ''main''
           [IfStmt None (OtherExpr None ''err != nil'' [exErr])
              (BlockStmt [ExprStmt (klogCall ''Fatal'' [exFormat])]) None,
            ExprStmt (klogCall ''Errorf'' [exFormat, exErr, exUserID])]]) =
   ([], Inr (True,
      \<lparr>Imports = [exTargetImport],
       Decls =
        [FuncDecl ''main''
           [IfStmt None (OtherExpr None ''err != nil'' [exErr])
              (BlockStmt
                 [ExprStmt (CallExpr None (SelectorExpr None (Ident None ''log'' False) ''Error'')
                    [Ident None ''FIXME__unknown_error_expr'' False, exFormat]),
                  osExit255]) None,
            ExprStmt (CallExpr None (SelectorExpr None (Ident None ''log'' False) ''Error'')
              [Ident None ''err'' False, exFormat,
               BasicLit None STRING (quote ''userID''), exUserID])]]\<rparr>))"
  by (simp add: logrFix_fix_def exInfo_def exKlogImport_def exTargetImport_def exEnv_def
      importPath_def unquotePlain_def quote_def klogCall_def exFormat_def exErr_def exUserID_def
      exExprString_def postStmt_def postExpr_def tryPkgStmtCall_def tryPkgExprCall_def
      tryPkgSymbol_def tryTypedCall_def fixError_def chooseAndRebuild_def andThen_def ret_def
      newIdent_def osExit255_def)

text \<open>
  Claim C4, as amended. Let the fix have run, without panic, on a file that imports the
  source package path at most once, the source path being other than the target path
  \<^verbatim>\<open>k8s.io/client-go/log\<close> (which \<^verbatim>\<open>strconv.Unquote\<close> reads from the new path literal). Then
  a second run on the resulting file reports no change, writes nothing and leaves the
  file as it is; and when the first run reported a change, the resulting file has no
  import of the source path left. The reason is general: the fix returns false and
  leaves the file as it is whenever the file's import list has no import of the source
  package path.
\<close>

theorem logrFix_fix_second_run:
  assumes "logrFix_fix env klogPkg info = (out, Inr (changed, file'))"
    and "length (filter (\<lambda>s. importPath (Unquote env) s = klogPkg) (Imports (AST info))) \<le> 1"
    and "Unquote env (quote ''k8s.io/client-go/log'') = Some ''k8s.io/client-go/log''"
    and "klogPkg \<noteq> ''k8s.io/client-go/log''"
  shows "logrFix_fix env klogPkg (info\<lparr>AST := file'\<rparr>) = ([], Inr (False, file'))
       \<and> (changed \<longrightarrow> getImportSpec (Unquote env) (Imports file') klogPkg = None)
       \<and> (getImportSpec (Unquote env) (Imports (AST other)) klogPkg = None \<longrightarrow>
            logrFix_fix env klogPkg other = ([], Inr (False, AST other)))"
proof -
  from logrFix_fix_cases [OF assms(1)]
  have "logrFix_fix env klogPkg (info\<lparr>AST := file'\<rparr>) = ([], Inr (False, file'))
       \<and> (changed \<longrightarrow> getImportSpec (Unquote env) (Imports file') klogPkg = None)"
  proof
    assume "\<not> changed \<and> file' = AST info \<and> out = [] \<and>
           logrFix_fix env klogPkg info = ([], Inr (False, AST info))"
    then show ?thesis by simp
  next
    assume "\<exists>i decls'. changed \<and>
            getImportSpec (Unquote env) (Imports (AST info)) klogPkg = Some i \<and>
            file' = (AST info)\<lparr>Imports := (Imports (AST info))
                       [i := (Imports (AST info) ! i)\<lparr>specPath := quote ''k8s.io/client-go/log''\<rparr>],
                     Decls := decls'\<rparr>"
    then obtain i decls' where g: "getImportSpec (Unquote env) (Imports (AST info)) klogPkg = Some i"
      and f: "file' = (AST info)\<lparr>Imports := (Imports (AST info))
                       [i := (Imports (AST info) ! i)\<lparr>specPath := quote ''k8s.io/client-go/log''\<rparr>],
                     Decls := decls'\<rparr>"
      by blast
    from rewritten_imports_no_match [OF g assms(2,3,4)] f
    have n: "getImportSpec (Unquote env) (Imports file') klogPkg = None" by simp
    then have "getImportSpec (Unquote env) (Imports (AST (info\<lparr>AST := file'\<rparr>))) klogPkg = None"
      by simp
    from logrFix_fix_no_import [OF this] n show ?thesis by simp
  qed
  then show ?thesis using logrFix_fix_no_import [of env other klogPkg] by blast
qed

theorem logrFix_fix_second_run_witness:
  "logrFix_fix exEnv ''k8s.io/klog'' (exInfo [exKlogImport] [FuncDecl ''main'' [exPrintln]]) =
     ([], Inr (True, \<lparr>Imports = [exTargetImport], Decls = [FuncDecl ''main'' [exPrintln]]\<rparr>))
   \<and> logrFix_fix exEnv ''k8s.io/klog''
       (exInfo [exTargetImport] [FuncDecl ''main'' [exPrintln]]) =
     ([], Inr (False, \<lparr>Imports = [exTargetImport], Decls = [FuncDecl ''main'' [exPrintln]]\<rparr>))"
proof -
  have once: "length (filter (\<lambda>s. importPath (Unquote exEnv) s = ''k8s.io/klog'')
      (Imports (AST (exInfo [exKlogImport] [FuncDecl ''main'' [exPrintln]])))) \<le> 1"
    by (simp add: exInfo_def)
  have ne: "''k8s.io/klog'' \<noteq> ''k8s.io/client-go/log''" by simp
  from logrFix_fix_second_run [OF ex_first_run once ex_unquote_target ne] ex_first_run
  show ?thesis by (simp add: exInfo_def)
qed

text \<open>
  The claim as stated, for every file on which the fix has run, fails for a file that
  imports the source package twice (under two names): a run rewrites the first matching
  import only, so the second run finds the other one, rewrites it and reports a change.
\<close>

theorem logrFix_fix_second_run_counterexample:
  "logrFix_fix exEnv ''k8s.io/klog'' (exInfo [exKlogImport, exKlogAlias] []) =
     ([], Inr (True, \<lparr>Imports = [exTargetImport, exKlogAlias], Decls = []\<rparr>))
   \<and> logrFix_fix exEnv ''k8s.io/klog'' (exInfo [exTargetImport, exKlogAlias] []) =
     ([], Inr (True, \<lparr>Imports = [exTargetImport, exKlogAlias\<lparr>specPath := quote ''k8s.io/client-go/log''\<rparr>],
                      Decls = []\<rparr>))"
  by (simp add: logrFix_fix_def exInfo_def ex_build_klog andThen_def ret_def exKlogImport_def
      exKlogAlias_def exTargetImport_def exEnv_def importPath_def unquotePlain_def quote_def)

text \<open>
  Claim C10, as amended. Let the import list of a file contain the source package path,
  let the build lookup of the package succeed, and let the traversal of the declarations
  end without panic, whatever it rewrites (nothing, when the file has no call to or
  reference of the package). Then the fix rewrites the path of the first such import to
  \<^verbatim>\<open>"k8s.io/client-go/log"\<close> and returns true. The engine then serializes the file; when
  serialization or the parse of the new text fails, it returns that error and hands
  nothing to the output step; when both succeed and the later fixes end without error,
  it hands the file to the output step.
\<close>

theorem logrFix_fix_reports_change:
  assumes "getImportSpec (Unquote env) (Imports (AST info)) klogPkg = Some i"
    and "build_Import env klogPkg (filepath_Dir env (Name info)) [] = Inr bldpkg"
    and "applyDecls (ExprString env)
           (case specName (Imports (AST info) ! i) of Some alias \<Rightarrow> alias
            | None \<Rightarrow> PkgName bldpkg)
           (ImportPath bldpkg) (Decls (AST info)) = (out, Inr decls')"
    and "file' = (AST info)\<lparr>Imports := (Imports (AST info))
                    [i := (Imports (AST info) ! i)\<lparr>specPath := quote ''k8s.io/client-go/log''\<rparr>],
                  Decls := decls'\<rparr>"
  shows "logrFix_fix env klogPkg info = (out, Inr (True, file'))
       \<and> (GofmtFile env file' = Inr newSrc \<and>
          parser_ParseFile env (Name info) (Some newSrc) = ParseOK ast' \<and>
          applyFixes env rest (info\<lparr>AST := ast'\<rparr>) True = (outRest, Inr (Inr (info', fixed))) \<longrightarrow>
          fixFile env (LogrFix env klogPkg # rest) HandleFix info =
            (out @ outRest, Inr (HandleFix info', [info'])))
       \<and> (GofmtFile env file' = Inl err \<longrightarrow>
          fixFile env (LogrFix env klogPkg # rest) HandleFix info = (out, Inr (Some err, [])))
       \<and> (GofmtFile env file' = Inr newSrc \<and>
          parser_ParseFile env (Name info) (Some newSrc) = ParseFailed partial err \<longrightarrow>
          fixFile env (LogrFix env klogPkg # rest) HandleFix info = (out, Inr (Some err, [])))"
proof -
  have r: "logrFix_fix env klogPkg info = (out, Inr (True, file'))"
    using logrFix_fix_changed [OF assms(1,2,3)] assms(4) by simp
  have e: "Execute (LogrFix env klogPkg) info = (out, Inr (True, file'))"
    using r by (simp add: LogrFix_def)
  show ?thesis
  proof (intro conjI impI)
    show "logrFix_fix env klogPkg info = (out, Inr (True, file'))" by (rule r)
  next
    assume h: "GofmtFile env file' = Inr newSrc \<and>
          parser_ParseFile env (Name info) (Some newSrc) = ParseOK ast' \<and>
          applyFixes env rest (info\<lparr>AST := ast'\<rparr>) True = (outRest, Inr (Inr (info', fixed)))"
    then have "fixed" using applyFixes_fixed by blast
    with h e show "fixFile env (LogrFix env klogPkg # rest) HandleFix info =
            (out @ outRest, Inr (HandleFix info', [info']))"
      by (simp add: fixFile_def andThen_def ret_def)
  next
    assume "GofmtFile env file' = Inl err"
    with e show "fixFile env (LogrFix env klogPkg # rest) HandleFix info = (out, Inr (Some err, []))"
      by (simp add: fixFile_def andThen_def ret_def)
  next
    assume "GofmtFile env file' = Inr newSrc \<and>
          parser_ParseFile env (Name info) (Some newSrc) = ParseFailed partial err"
    with e show "fixFile env (LogrFix env klogPkg # rest) HandleFix info = (out, Inr (Some err, []))"
      by (simp add: fixFile_def andThen_def ret_def)
  qed
qed

theorem logrFix_fix_reports_change_witness:
  "logrFix_fix exEnv ''k8s.io/klog'' (exInfo [exKlogImport] [FuncDecl ''main'' [exPrintln]]) =
     ([], Inr (True, \<lparr>Imports = [exTargetImport], Decls = [FuncDecl ''main'' [exPrintln]]\<rparr>))
   \<and> fixFile exEnv [LogrFix exEnv ''k8s.io/klog''] (\<lambda>info. None)
       (exInfo [exKlogImport] [FuncDecl ''main'' [exPrintln]]) =
     ([], Inr (None, [exInfo [] []]))"
proof -
  let ?info = "exInfo [exKlogImport] [FuncDecl ''main'' [exPrintln]]"
  let ?bld = "\<lparr>Dir = ''klog'', GoFiles = [''klog.go''], ImportPath = ''k8s.io/klog'',
               PkgName = ''klog''\<rparr>"
  let ?file = "\<lparr>Imports = [exTargetImport], Decls = [FuncDecl ''main'' [exPrintln]]\<rparr>"
  have g: "getImportSpec (Unquote exEnv) (Imports (AST ?info)) ''k8s.io/klog'' = Some 0"
    using ex_getImportSpec by (simp add: exInfo_def)
  have b: "build_Import exEnv ''k8s.io/klog'' (filepath_Dir exEnv (Name ?info)) [] = Inr ?bld"
    by (rule ex_build_klog)
  have d: "applyDecls (ExprString exEnv)
             (case specName (Imports (AST ?info) ! 0) of Some alias \<Rightarrow> alias
              | None \<Rightarrow> PkgName ?bld)
             (ImportPath ?bld) (Decls (AST ?info)) = ([], Inr [FuncDecl ''main'' [exPrintln]])"
    using ex_applyDecls by (simp add: exInfo_def exKlogImport_def)
  have f: "?file = (AST ?info)\<lparr>Imports := (Imports (AST ?info))
                    [0 := (Imports (AST ?info) ! 0)\<lparr>specPath := quote ''k8s.io/client-go/log''\<rparr>],
                  Decls := [FuncDecl ''main'' [exPrintln]]\<rparr>"
    by (simp add: exInfo_def exKlogImport_def exTargetImport_def)
  have fmt: "GofmtFile exEnv ?file = Inr ''package main''"
    by (simp add: GofmtFile_def exEnv_def)
  have prs: "parser_ParseFile exEnv (Name ?info) (Some ''package main'') = ParseOK (exFile [])"
    by (simp add: exEnv_def exInfo_def)
  have rest: "applyFixes exEnv [] (?info\<lparr>AST := exFile []\<rparr>) True =
                ([], Inr (Inr (?info\<lparr>AST := exFile []\<rparr>, True)))"
    by (simp add: ret_def)
  from logrFix_fix_reports_change [where rest = "[]" and HandleFix = "\<lambda>info. None"
      and newSrc = "''package main''" and ast' = "exFile []" and outRest = "[]"
      and info' = "?info\<lparr>AST := exFile []\<rparr>" and fixed = True, OF g b d f]
    fmt prs rest
  show ?thesis by (simp add: exInfo_def exFile_def)
qed

text \<open>
  The claim as stated, for every file whose import list contains the source package
  path, fails when the build lookup of the package fails: the fix logs the error and
  returns false before it rewrites anything, and the engine hands nothing to the output
  step.
\<close>

theorem logrFix_fix_reports_change_counterexample:
  "getImportSpec (Unquote exEnvNoBuild) (Imports (AST (exInfo [exKlogImport] []))) ''k8s.io/klog'' =
     Some 0
   \<and> logrFix_fix exEnvNoBuild ''k8s.io/klog'' (exInfo [exKlogImport] []) =
       ([], Inr (False, \<lparr>Imports = [exKlogImport], Decls = []\<rparr>))
   \<and> fixFile exEnvNoBuild [LogrFix exEnvNoBuild ''k8s.io/klog''] (\<lambda>info. None)
       (exInfo [exKlogImport] []) =
     ([], Inr (None, []))"
  by (simp add: fixFile_def LogrFix_def logrFix_fix_def exInfo_def exEnvNoBuild_def andThen_def
      ret_def exKlogImport_def exEnv_def importPath_def unquotePlain_def quote_def)
section \<open>Properties of the importer\<close>

lemma parseTask_eq:
  "parseTask env bp slots ind =
     ((fst slots)[ind := fileOf (parser_ParseFile env (filepath_Join env (Dir bp) (GoFiles bp ! ind)) None)],
      (snd slots)[ind := errorOf (parser_ParseFile env (filepath_Join env (Dir bp) (GoFiles bp ! ind)) None)])"
  by (simp add: parseTask_def split: parsed.splits)

lemma foldl_parseTask:
  assumes "set order \<subseteq> {..<length (GoFiles bp)}"
    and "length fs = length (GoFiles bp)" and "length es = length (GoFiles bp)"
  shows "length (fst (foldl (parseTask env bp) (fs, es) order)) = length (GoFiles bp)
       \<and> length (snd (foldl (parseTask env bp) (fs, es) order)) = length (GoFiles bp)
       \<and> (\<forall>j<length (GoFiles bp).
            fst (foldl (parseTask env bp) (fs, es) order) ! j =
              (if j \<in> set order then fileOf (parseResults env bp ! j) else fs ! j)
          \<and> snd (foldl (parseTask env bp) (fs, es) order) ! j =
              (if j \<in> set order then errorOf (parseResults env bp ! j) else es ! j))"
  using assms
proof (induction order arbitrary: fs es)
  case Nil
  then show ?case by simp
next
  case (Cons ind order)
  let ?r = "parser_ParseFile env (filepath_Join env (Dir bp) (GoFiles bp ! ind)) None"
  have ind: "ind < length (GoFiles bp)" using Cons.prems(1) by simp
  have r: "parseResults env bp ! ind = ?r" using ind by (simp add: parseResults_def)
  have step: "parseTask env bp (fs, es) ind = (fs[ind := fileOf ?r], es[ind := errorOf ?r])"
    by (simp add: parseTask_eq)
  have sub: "set order \<subseteq> {..<length (GoFiles bp)}" using Cons.prems(1) by simp
  have l1: "length (fs[ind := fileOf ?r]) = length (GoFiles bp)" using Cons.prems(2) by simp
  have l2: "length (es[ind := errorOf ?r]) = length (GoFiles bp)" using Cons.prems(3) by simp
  from Cons.IH [OF sub l1 l2] show ?case
    using ind r Cons.prems(2,3) by (auto simp: step nth_list_update)
qed

lemma slots_all_tasks:
  assumes "set order = {..<length (GoFiles bp)}"
  shows "foldl (parseTask env bp)
           (replicate (length (GoFiles bp)) None, replicate (length (GoFiles bp)) None) order =
         (map fileOf (parseResults env bp), map errorOf (parseResults env bp))"
proof -
  let ?n = "length (GoFiles bp)"
  let ?s = "foldl (parseTask env bp) (replicate ?n None, replicate ?n None) order"
  have sub: "set order \<subseteq> {..<?n}" using assms by simp
  from foldl_parseTask [OF sub, of "replicate ?n None" "replicate ?n None" env]
  have l: "length (fst ?s) = ?n" "length (snd ?s) = ?n"
    and v: "\<forall>j<?n. fst ?s ! j = (if j \<in> set order then fileOf (parseResults env bp ! j)
                                 else replicate ?n None ! j)
                 \<and> snd ?s ! j = (if j \<in> set order then errorOf (parseResults env bp ! j)
                                 else replicate ?n None ! j)"
    by simp_all
  have n: "length (parseResults env bp) = ?n" by (simp add: parseResults_def)
  have f: "fst ?s = map fileOf (parseResults env bp)"
    using l(1) v assms n by (intro nth_equalityI) auto
  have e: "snd ?s = map errorOf (parseResults env bp)"
    using l(2) v assms n by (intro nth_equalityI) auto
  show ?thesis using f e by (simp add: prod_eq_iff)
qed

lemma firstErrorLoop_Some: "firstErrorLoop errs (Some e) = Some e"
  by (induction errs) (auto split: option.splits)

lemma firstErrorLoop_first:
  "\<forall>x\<in>set pre. x = None \<Longrightarrow> firstErrorLoop (pre @ Some e # post) None = Some e"
  by (induction pre) (auto simp: firstErrorLoop_Some)

text \<open>
  Claim C3. \<^verbatim>\<open>parsePackageFiles\<close> starts one parse task for each file of the package and
  waits for all of them. Let the tasks complete in any order in which each of them
  completes, let the file with index \<open>K\<close> of the declared file list fail to parse with the
  error \<open>eK\<close>, and let no file before it fail (the files after it may parse or fail). Then
  the error that \<^verbatim>\<open>parsePackageFiles\<close> returns is \<open>eK\<close>, and with any other order of
  completion it returns the same error.
\<close>

theorem parsePackageFiles_first_error:
  assumes "set order = {..<length (GoFiles bp)}"
    and "set order' = {..<length (GoFiles bp)}"
    and "K < length (GoFiles bp)"
    and "errorOf (parseResults env bp ! K) = Some eK"
    and "\<forall>j<K. errorOf (parseResults env bp ! j) = None"
  shows "snd (parsePackageFiles env order bp) = Some eK
       \<and> snd (parsePackageFiles env order' bp) = snd (parsePackageFiles env order bp)"
proof -
  let ?errs = "map errorOf (parseResults env bp)"
  have n: "length ?errs = length (GoFiles bp)" by (simp add: parseResults_def)
  have d: "?errs = take K ?errs @ Some eK # drop (Suc K) ?errs"
    using assms(3,4) n by (metis id_take_nth_drop length_map nth_map)
  have p: "\<forall>x\<in>set (take K ?errs). x = None"
    using assms(3,5) n by (auto simp: in_set_conv_nth)
  have "firstErrorLoop ?errs None = Some eK"
    using firstErrorLoop_first [OF p, of eK "drop (Suc K) ?errs"] d by simp
  then show ?thesis
    by (simp add: parsePackageFiles_def slots_all_tasks [OF assms(1)]
        slots_all_tasks [OF assms(2)])
qed

theorem parsePackageFiles_first_error_witness:
  "parsePackageFiles exEnv [2, 0, 1] (exBuild ''pkg'' [''a.go'', ''b.go'', ''c.go'']) =
     ([Some (exFile []), None, None], Some (OtherError ''pkg/b.go:1:1: expected package''))
   \<and> snd (parsePackageFiles exEnv [1, 2, 0] (exBuild ''pkg'' [''a.go'', ''b.go'', ''c.go''])) =
     Some (OtherError ''pkg/b.go:1:1: expected package'')"
proof -
  have s: "{..<3} = {0, 1, 2::nat}" by auto
  have a: "set [2, 0, 1] = {..<length (GoFiles (exBuild ''pkg'' [''a.go'', ''b.go'', ''c.go'']))}"
    by (auto simp: exBuild_def s)
  have b: "set [1, 2, 0] = {..<length (GoFiles (exBuild ''pkg'' [''a.go'', ''b.go'', ''c.go'']))}"
    by (auto simp: exBuild_def s)
  have k: "1 < length (GoFiles (exBuild ''pkg'' [''a.go'', ''b.go'', ''c.go'']))"
    by (simp add: exBuild_def)
  have e: "errorOf (parseResults exEnv (exBuild ''pkg'' [''a.go'', ''b.go'', ''c.go'']) ! 1) =
             Some (OtherError ''pkg/b.go:1:1: expected package'')"
    by (simp add: parseResults_def exBuild_def exEnv_def)
  have f: "\<forall>j<1. errorOf (parseResults exEnv (exBuild ''pkg'' [''a.go'', ''b.go'', ''c.go'']) ! j) =
             None"
    by (simp add: parseResults_def exBuild_def exEnv_def)
  have v: "parsePackageFiles exEnv [2, 0, 1] (exBuild ''pkg'' [''a.go'', ''b.go'', ''c.go'']) =
     ([Some (exFile []), None, None], Some (OtherError ''pkg/b.go:1:1: expected package''))"
    by (simp add: parsePackageFiles_def parseTask_def exBuild_def exEnv_def numeral_3_eq_3)
  from parsePackageFiles_first_error [OF a b k e f] v show ?thesis by simp
qed

lemma keeps_refl: "keeps i i"
  by (simp add: keeps_def)

lemma keeps_trans: "keeps i j \<Longrightarrow> keeps j k \<Longrightarrow> keeps i k"
  by (auto simp: keeps_def)

lemma keeps_store:
  "packages i p = None \<Longrightarrow> keeps i (i\<lparr>packages := (packages i)(p \<mapsto> v)\<rparr>)"
  by (auto simp: keeps_def)

lemma keeps_restore:
  "packages i p = None \<Longrightarrow> keeps (i\<lparr>packages := (packages i)(p \<mapsto> v)\<rparr>) j \<Longrightarrow>
   keeps i (j\<lparr>packages := (packages j)(p \<mapsto> w)\<rparr>)"
  by (auto simp: keeps_def)

lemma keeps_entry: "keeps i i' \<Longrightarrow> packages i p = Some v \<Longrightarrow> packages i' p = Some v"
  by (auto simp: keeps_def)

lemma runCheck_keeps:
  assumes n: "\<And>j p d r j'. nested j p d = Some (r, j') \<Longrightarrow> keeps j j'"
  shows "runCheck nested c i = Some (r, i') \<Longrightarrow> keeps i i'"
proof (induction c arbitrary: i)
  case (Answer x)
  then show ?case by (simp add: keeps_refl)
next
  case (Ask p d k)
  from Ask.prems obtain r1 i1 where s: "nested i p d = Some (r1, i1)"
    and t: "runCheck nested (k r1) i1 = Some (r, i')"
    by (auto split: option.splits)
  have "keeps i i1" using s by (rule n)
  moreover have "keeps i1 i'" using t by (rule Ask.IH [OF rangeI])
  ultimately show ?case by (rule keeps_trans)
qed

lemma ImportFrom_via_miss:
  assumes "packages i path = None"
    and "ImportFrom_via nested env i path srcDir = Some (r, i')"
  shows "i' = i\<lparr>packages := (packages i)(path \<mapsto> None)\<rparr>
       \<or> (\<exists>w. i' = i\<lparr>packages := (packages i)(path \<mapsto> w)\<rparr> \<and> (\<exists>pkg. r = Inr pkg))
       \<or> (\<exists>c. runCheck nested c (i\<lparr>packages := (packages i)(path \<mapsto> None)\<rparr>) = Some (r, i')
               \<and> (\<exists>err. r = Inl err))
       \<or> (\<exists>c i2 w. runCheck nested c (i\<lparr>packages := (packages i)(path \<mapsto> None)\<rparr>) = Some (r, i2)
               \<and> i' = i2\<lparr>packages := (packages i2)(path \<mapsto> w)\<rparr> \<and> (\<exists>pkg. r = Inr pkg))"
proof -
  let ?i1 = "i\<lparr>packages := (packages i)(path \<mapsto> None)\<rparr>"
  let ?fullDir = "pathpkg_Join env (cwd i) srcDir"
  show ?thesis
  proof (cases "fastImporter_ImportFrom env path ?fullDir")
    case fast: (Inr pkg)
    show ?thesis
    proof (cases "build_Import env path ?fullDir [AllowBinary, FindOnly]")
      case (Inl err)
      with assms fast have "i' = ?i1" by (simp add: ImportFrom_via_def Let_def)
      then show ?thesis by blast
    next
      case (Inr buildPkg)
      with assms fast have "r = Inr pkg"
        "i' = i\<lparr>packages := (packages i)(path \<mapsto>
                Some \<lparr>ParseInfo = pkg, BuildInfo = buildPkg, Files = []\<rparr>)\<rparr>"
        by (simp_all add: ImportFrom_via_def Let_def)
      then show ?thesis by blast
    qed
  next
    case (Inl e)
    show ?thesis
    proof (cases "build_Import env path ?fullDir [AllowBinary]")
      case berr: (Inl err)
      with assms Inl show ?thesis by (simp add: ImportFrom_via_def Let_def)
    next
      case (Inr buildPkg)
      obtain files ferr where
        p: "parsePackageFiles env (taskOrder env buildPkg) buildPkg = (files, ferr)"
        by (cases "parsePackageFiles env (taskOrder env buildPkg) buildPkg")
      show ?thesis
      proof (cases ferr)
        case (Some err)
        with assms Inl Inr p show ?thesis by (simp add: ImportFrom_via_def Let_def)
      next
        case None
        from assms Inl Inr p None obtain r2 i2 where
          c: "runCheck nested (types_Check env path files) ?i1 = Some (r2, i2)"
          by (auto simp: ImportFrom_via_def Let_def split: option.splits)
        show ?thesis
        proof (cases r2)
          case rerr: (Inl err)
          with assms Inl Inr p None c have "r = Inl err" "i' = i2"
            by (simp_all add: ImportFrom_via_def Let_def)
          with c rerr show ?thesis by blast
        next
          case rok: (Inr pkg)
          with assms Inl Inr p None c have "r = Inr pkg"
            "i' = i2\<lparr>packages := (packages i2)(path \<mapsto>
                    Some \<lparr>ParseInfo = pkg, BuildInfo = buildPkg, Files = files\<rparr>)\<rparr>"
            by (simp_all add: ImportFrom_via_def Let_def)
          with c rok show ?thesis by blast
        qed
      qed
    qed
  qed
qed

lemma ImportFrom_via_keeps:
  assumes n: "\<And>j p d r j'. nested j p d = Some (r, j') \<Longrightarrow> keeps j j'"
    and a: "ImportFrom_via nested env i path srcDir = Some (r, i')"
  shows "keeps i i'"
proof (cases "packages i path")
  case (Some v)
  with a show ?thesis
    by (cases v) (auto simp: ImportFrom_via_def keeps_refl)
next
  case None
  let ?i1 = "i\<lparr>packages := (packages i)(path \<mapsto> None)\<rparr>"
  have k1: "keeps i ?i1" using None by (rule keeps_store)
  from ImportFrom_via_miss [OF None a]
  consider "i' = ?i1"
    | w where "i' = i\<lparr>packages := (packages i)(path \<mapsto> w)\<rparr>"
    | c where "runCheck nested c ?i1 = Some (r, i')"
    | c i2 w where "runCheck nested c ?i1 = Some (r, i2)"
        "i' = i2\<lparr>packages := (packages i2)(path \<mapsto> w)\<rparr>"
    by blast
  then show ?thesis
  proof cases
    case 1
    with k1 show ?thesis by simp
  next
    case 2
    with None show ?thesis by (simp add: keeps_store)
  next
    case 3
    from runCheck_keeps [OF n this] have "keeps ?i1 i'" .
    with k1 show ?thesis by (rule keeps_trans)
  next
    case 4
    from runCheck_keeps [OF n 4(1)] have "keeps ?i1 i2" .
    with None 4(2) show ?thesis by (simp add: keeps_restore)
  qed
qed

lemma ImportFrom_keeps: "ImportFrom fuel env i path srcDir = Some (r, i') \<Longrightarrow> keeps i i'"
proof (induction fuel arbitrary: i path srcDir r i')
  case 0
  then have v: "ImportFrom_via (\<lambda>i path srcDir. None) env i path srcDir = Some (r, i')"
    by (simp add: ImportFrom.simps)
  show ?case by (rule ImportFrom_via_keeps [OF _ v]) simp
next
  case (Suc fuel)
  then have v: "ImportFrom_via (ImportFrom fuel env) env i path srcDir = Some (r, i')"
    by (simp add: ImportFrom.simps)
  show ?case by (rule ImportFrom_via_keeps [OF _ v]) (rule Suc.IH)
qed


lemma ImportFrom_sentinel:
  "packages i path = Some None \<Longrightarrow>
   ImportFrom fuel env i path srcDir = Some (Inl (ImportLoopDetected path), i)"
  by (cases fuel) (simp_all add: ImportFrom.simps ImportFrom_via_def)

lemma ImportFrom_failure_state:
  assumes "packages i path = None"
    and "ImportFrom fuel env i path srcDir = Some (Inl err, i')"
  shows "keeps (i\<lparr>packages := (packages i)(path \<mapsto> None)\<rparr>) i'"
proof -
  let ?i1 = "i\<lparr>packages := (packages i)(path \<mapsto> None)\<rparr>"
  obtain nested where v: "ImportFrom_via nested env i path srcDir = Some (Inl err, i')"
    and n: "\<And>j p d r j'. nested j p d = Some (r, j') \<Longrightarrow> keeps j j'"
  proof (cases fuel)
    case 0
    with assms(2) have "ImportFrom_via (\<lambda>i path srcDir. None) env i path srcDir = Some (Inl err, i')"
      by (simp add: ImportFrom.simps)
    then show ?thesis by (rule that) simp
  next
    case (Suc fuel')
    with assms(2) have "ImportFrom_via (ImportFrom fuel' env) env i path srcDir = Some (Inl err, i')"
      by (simp add: ImportFrom.simps)
    then show ?thesis by (rule that) (rule ImportFrom_keeps)
  qed
  from ImportFrom_via_miss [OF assms(1) v]
  have "i' = ?i1 \<or> (\<exists>c. runCheck nested c ?i1 = Some (Inl err, i'))"
    by auto
  then show ?thesis
    using runCheck_keeps [OF n] keeps_refl by auto
qed

text \<open>
  Claim C9. Let a request for \<open>path\<close> find no entry in the cache, so that it stores the
  sentinel, and let it fail, with whatever error (build lookup, parse or type check, on
  the fast or the full path). Then the cache still holds the sentinel for \<open>path\<close> when the
  request has returned; every later request for \<open>path\<close> on that state fails with the
  import-loop error for \<open>path\<close>, whatever the collaborators now answer, and leaves the state
  as it is; and no request for any path ever takes a sentinel away, so the path stays
  unloadable for the life of the importer.
\<close>

theorem failed_import_leaves_sentinel:
  assumes "packages i path = None"
    and "ImportFrom fuel env i path srcDir = Some (Inl err, i')"
  shows "packages i' path = Some None
       \<and> (\<forall>fuel2 env2 srcDir2.
            ImportFrom fuel2 env2 i' path srcDir2 = Some (Inl (ImportLoopDetected path), i'))
       \<and> (\<forall>j fuel2 env2 q srcDir2 r j'.
            packages j path = Some None \<and> ImportFrom fuel2 env2 j q srcDir2 = Some (r, j') \<longrightarrow>
            packages j' path = Some None)"
proof (intro conjI allI impI)
  from ImportFrom_failure_state [OF assms]
  show s: "packages i' path = Some None"
    by (auto dest: keeps_entry [where p = path and v = None])
  fix fuel2 env2 srcDir2
  from s show "ImportFrom fuel2 env2 i' path srcDir2 = Some (Inl (ImportLoopDetected path), i')"
    by (rule ImportFrom_sentinel)
next
  fix j fuel2 env2 q srcDir2 r j'
  assume "packages j path = Some None \<and> ImportFrom fuel2 env2 j q srcDir2 = Some (r, j')"
  then show "packages j' path = Some None"
    using ImportFrom_keeps keeps_entry by blast
qed

theorem failed_import_leaves_sentinel_witness:
  "packages exImporter ''missing'' = None
   \<and> ImportFrom 0 exEnv exImporter ''missing'' [] =
       Some (Inl (OtherError ''cannot find package''),
             exImporter\<lparr>packages := (packages exImporter)(''missing'' \<mapsto> None)\<rparr>)
   \<and> ImportFrom 3 exEnv (exImporter\<lparr>packages := (packages exImporter)(''missing'' \<mapsto> None)\<rparr>)
         ''missing'' [] =
       Some (Inl (ImportLoopDetected ''missing''),
             exImporter\<lparr>packages := (packages exImporter)(''missing'' \<mapsto> None)\<rparr>)"
proof -
  have a: "packages exImporter ''missing'' = None" by (simp add: exImporter_def)
  have b: "ImportFrom 0 exEnv exImporter ''missing'' [] =
       Some (Inl (OtherError ''cannot find package''),
             exImporter\<lparr>packages := (packages exImporter)(''missing'' \<mapsto> None)\<rparr>)"
    by (simp add: ImportFrom.simps ImportFrom_via_def exImporter_def exEnv_def)
  from failed_import_leaves_sentinel [OF a b] a b show ?thesis by blast
qed












end
